theory Spec2Isabelle
  imports Complex_Main
begin

section \<open>Python values and the external libraries\<close>

text \<open>
  The repository is glue code around OpenCV (\<^verbatim>\<open>cv2.aruco\<close>), \<^verbatim>\<open>cv_bridge\<close>
  and \<^verbatim>\<open>rclpy\<close>.  Python exceptions are values of \<open>error\<close>; a computation that
  may raise returns \<open>error + 'a\<close> with \<open>Inl\<close> the exception.
\<close>

datatype error =
    AttributeError
  | UnboundLocalError
  | TypeError
  | IndexError
  | ValueError
  | LibraryError
  | SystemExit

text \<open>
  An attribute of the module \<^verbatim>\<open>cv2.aruco\<close> is either an integer constant (the
  predefined dictionary ids, the corner refinement constants, ...) or some other
  object (a function or a class), of which only the name of its type is kept.
\<close>

datatype pyval = PyInt int | PyObj string

definition pytype :: "pyval \<Rightarrow> string" where
  "pytype v = (case v of PyInt _ \<Rightarrow> ''int'' | PyObj t \<Rightarrow> t)"

text \<open>
  Objects made by the vision library are opaque to the repository; they are
  represented by the library call that made them.
\<close>

datatype dictionary =
    Dictionary_get int
  | Dictionary_create int int int

record charuco_board =
  squaresX :: int
  squaresY :: int
  squareLength :: real
  markerLength :: real
  board_dictionary :: dictionary

datatype image =
    CvImage "nat list"
  | BoardImage charuco_board int int
  | MarkerImage dictionary int int int

definition CharucoBoard_create ::
  "int \<Rightarrow> int \<Rightarrow> real \<Rightarrow> real \<Rightarrow> dictionary \<Rightarrow> charuco_board" where
  "CharucoBoard_create sx sy sl ml dict =
     \<lparr>squaresX = sx, squaresY = sy, squareLength = sl, markerLength = ml,
      board_dictionary = dict\<rparr>"

text \<open>
  The module namespace \<^verbatim>\<open>cv2.aruco\<close> is an association list of attribute names
  and values: \<^verbatim>\<open>dir\<close> lists the names, \<^verbatim>\<open>__getattribute__\<close> looks one up and
  raises \<^verbatim>\<open>AttributeError\<close> when it is missing.
\<close>

type_synonym namespace = "(string \<times> pyval) list"

definition dir_names :: "namespace \<Rightarrow> string list" where
  "dir_names ns = map fst ns"

definition getattribute :: "namespace \<Rightarrow> string \<Rightarrow> error + pyval" where
  "getattribute ns name =
     (case map_of ns name of None \<Rightarrow> Inl AttributeError | Some v \<Rightarrow> Inr v)"

definition startswith :: "string \<Rightarrow> string \<Rightarrow> bool" where
  "startswith s p = (take (length p) s = p)"

definition dict_options :: "namespace \<Rightarrow> string list" where
  "dict_options ns = filter (\<lambda>s. startswith s ''DICT'') (dir_names ns)"

fun join :: "string \<Rightarrow> string list \<Rightarrow> string" where
  "join sep [] = []"
| "join sep [s] = s"
| "join sep (s # t # ts) = s @ sep @ join sep (t # ts)"

text \<open>
  \<^verbatim>\<open>cv2.aruco.Dictionary_get\<close> through the Python binding: an argument that is
  not an integer is rejected with \<^verbatim>\<open>TypeError\<close>.
\<close>

definition Dictionary_get_py :: "pyval \<Rightarrow> error + dictionary" where
  "Dictionary_get_py v =
     (case v of PyInt n \<Rightarrow> Inr (Dictionary_get n) | PyObj _ \<Rightarrow> Inl TypeError)"

text \<open>Decimal rendering of integers, as \<^verbatim>\<open>str.format\<close> and f-strings do it.\<close>

definition digit_char :: "nat \<Rightarrow> char" where
  "digit_char n = char_of (48 + n)"

fun nat_digits :: "nat \<Rightarrow> string" where
  "nat_digits n =
     (if n < 10 then [digit_char n]
      else nat_digits (n div 10) @ [digit_char (n mod 10)])"

definition str_int :: "int \<Rightarrow> string" where
  "str_int i = (if i < 0 then CHR ''-'' # nat_digits (nat (- i)) else nat_digits (nat i))"

definition format_04d :: "int \<Rightarrow> string" where
  "format_04d i =
     (if i < 0
      then CHR ''-'' # replicate (3 - length (nat_digits (nat (- i)))) CHR ''0''
             @ nat_digits (nat (- i))
      else replicate (4 - length (nat_digits (nat i))) CHR ''0'' @ nat_digits (nat i))"

text \<open>
  Python's \<^verbatim>\<open>a or b\<close> on an optional integer: \<^verbatim>\<open>None\<close> and \<^verbatim>\<open>0\<close> are falsy.
\<close>

definition py_or_int :: "int option \<Rightarrow> int \<Rightarrow> int" where
  "py_or_int a b = (case a of None \<Rightarrow> b | Some v \<Rightarrow> if v = 0 then b else v)"

section \<open>The generator scripts\<close>

text \<open>
  What a script can observe of the operating system: whether \<^verbatim>\<open>cv2.imwrite\<close>
  succeeds for a path and an image, and \<^verbatim>\<open>os.path.abspath\<close>.
\<close>

record os_env =
  imwrite :: "string \<Rightarrow> image \<Rightarrow> bool"
  abspath :: "string \<Rightarrow> string"

subsection \<open>\<^verbatim>\<open>charuco_generate_board.py\<close>\<close>

text \<open>
  The command line after \<^verbatim>\<open>argparse\<close> has converted it: the numeric options
  and the path hold their defaults when omitted, \<^verbatim>\<open>out_x\<close> and \<^verbatim>\<open>out_y\<close>
  have none, and \<^verbatim>\<open>dictionary\<close> is \<open>None\<close> when the option is omitted.
\<close>

record board_args =
  square_x :: int
  square_y :: int
  square_length :: real
  marker_length :: real
  path :: string
  out_x :: "int option"
  out_y :: "int option"
  dictionary :: "string option"

text \<open>
  Lines 43 to 51: \<^verbatim>\<open>parse_args\<close> checks a given \<^verbatim>\<open>--dictionary\<close> against
  \<^verbatim>\<open>choices\<close> and leaves the script with an error when it is not one of them;
  the default is taken unchecked.
\<close>

definition chosen_dictionary :: "namespace \<Rightarrow> board_args \<Rightarrow> error + string" where
  "chosen_dictionary ns args =
     (case dictionary args of
        None \<Rightarrow> Inr ''DICT_5X5_250''
      | Some s \<Rightarrow> if s \<in> set (dict_options ns) then Inr s else Inl SystemExit)"

text \<open>Lines 52 and 53 of the script: the defaults of the output resolution.\<close>

definition resolve_out :: "board_args \<Rightarrow> board_args" where
  "resolve_out args =
     (let args1 = args\<lparr>out_x := Some (py_or_int (out_x args) (300 * square_x args))\<rparr>
      in args1\<lparr>out_y := Some (py_or_int (out_y args1) (300 * square_y args1))\<rparr>)"

text \<open>
  The library calls of the script may raise \<^verbatim>\<open>cv2.error\<close>: the board for its
  geometry, \<^verbatim>\<open>draw\<close> for the size asked for, \<^verbatim>\<open>imwrite\<close> for the path.
  When they do is left to the library.
\<close>

record cv2_faults =
  create_raises :: "charuco_board \<Rightarrow> bool"
  draw_raises :: "charuco_board \<Rightarrow> int \<Rightarrow> int \<Rightarrow> bool"
  imwrite_raises :: "string \<Rightarrow> image \<Rightarrow> bool"

text \<open>
  What the script does, in order: the calls of \<^verbatim>\<open>board.draw\<close> (with the board
  and the width and height asked for) and of \<^verbatim>\<open>cv2.imwrite\<close> (with the path and
  the image), and the printed lines.
\<close>

datatype script_event =
    Print string
  | Draw charuco_board int int
  | Imwrite string image

definition unrecognized_dictionary :: "namespace \<Rightarrow> string \<Rightarrow> script_event list" where
  "unrecognized_dictionary ns name =
     map Print ([''unrecognized dictionary id: '' @ name, ''Valid options:''] @ dict_options ns)"

text \<open>
  The script's \<^verbatim>\<open>main\<close>: its events and the exception that ends it, if any.
  The \<^verbatim>\<open>try\<close> block only catches \<^verbatim>\<open>AttributeError\<close>.
\<close>

definition board_main ::
  "namespace \<Rightarrow> cv2_faults \<Rightarrow> os_env \<Rightarrow> board_args
     \<Rightarrow> script_event list \<times> error option" where
  "board_main ns cv env args0 =
     (case chosen_dictionary ns args0 of
        Inl e \<Rightarrow> ([], Some e)
      | Inr name \<Rightarrow>
          (let args = resolve_out args0 in
           case getattribute ns name of
             Inl e \<Rightarrow> (unrecognized_dictionary ns name, None)
           | Inr dictionary_id \<Rightarrow>
               (case Dictionary_get_py dictionary_id of
                  Inl e \<Rightarrow>
                    (if e = AttributeError then (unrecognized_dictionary ns name, None)
                     else ([], Some e))
                | Inr dict \<Rightarrow>
                    (let board = CharucoBoard_create (square_x args) (square_y args)
                                   (square_length args) (marker_length args) dict;
                         w = the (out_x args);
                         h = the (out_y args);
                         imboard = BoardImage board w h
                     in if create_raises cv board then ([], Some LibraryError)
                        else if draw_raises cv board w h
                        then ([Draw board w h], Some LibraryError)
                        else if imwrite_raises cv (path args) imboard
                        then ([Draw board w h, Imwrite (path args) imboard], Some LibraryError)
                        else (let written = imwrite env (path args) imboard;
                                  abs_path = abspath env (path args)
                              in if \<not> written
                                 then ([Draw board w h, Imwrite (path args) imboard,
                                        Print (''Failed to write checkerboard to '' @ abs_path)],
                                       None)
                                 else ([Draw board w h, Imwrite (path args) imboard,
                                        Print (''Succesfully wrote checkerboard to '' @ abs_path)],
                                       None))))))"

subsection \<open>\<^verbatim>\<open>aruco_generate_custom_dictionary.py\<close>\<close>

record marker_args =
  size_arg :: int
  num :: int
  bits :: int
  seed :: int

text \<open>
  The script's \<^verbatim>\<open>main\<close>: the printed lines, and for each \<^verbatim>\<open>cv2.imwrite\<close>
  call its path and the result the call returned (which the script discards).
  This is the run in which \<^verbatim>\<open>Dictionary_create\<close> and \<^verbatim>\<open>drawMarker\<close> return;
  where the library raises instead (a side length too small for the bits) or
  does not return, the script has no \<^verbatim>\<open>print\<close> to reach either.
\<close>

definition marker_file :: "int \<Rightarrow> string" where
  "marker_file i = ''marker_'' @ format_04d i @ ''.png''"

definition marker_main ::
  "os_env \<Rightarrow> marker_args \<Rightarrow> string list \<times> (string \<times> bool) list" where
  "marker_main env args =
     (let dict = Dictionary_create (num args) (bits args) (seed args)
      in ([],
          map (\<lambda>i. (marker_file i,
                     imwrite env (marker_file i) (MarkerImage dict i (size_arg args) 1)))
              (map int [0 ..< nat (num args)])))"

section \<open>ROS messages\<close>

record msg_header =
  stamp :: nat
  frame_id :: string

record stamped =
  header :: msg_header

text \<open>
  \<^verbatim>\<open>geometry_msgs\<close>: a point or vector has the fields x, y, z, a quaternion the
  fields x, y, z, w, in this order.
\<close>

datatype point = Point real real real

datatype quaternion = Quaternion real real real real

record pose =
  position :: point
  orientation :: quaternion

text \<open>\<^verbatim>\<open>PoseArray\<close>, and \<^verbatim>\<open>ArucoMarkers\<close>, which has the same fields and \<^verbatim>\<open>marker_ids\<close>.\<close>

record pose_array = stamped +
  poses :: "pose list"

record aruco_markers = pose_array +
  marker_ids :: "int list"

record transform =
  translation :: point
  rotation :: quaternion

record transform_stamped = stamped +
  child_frame_id :: string
  transform :: transform

record charuco_board_msg =
  pose :: pose

record camera_info = stamped +
  k :: "real list"
  d :: "real list"

record image_msg = stamped +
  data :: "nat list"

text \<open>What a callback does to the outside world, in the order it does it.\<close>

datatype event =
    LogWarn string
  | LogError string
  | PublishPoses pose_array
  | PublishMarkers aruco_markers
  | PublishCharuco charuco_board_msg
  | SendTransform transform_stamped

section \<open>ROS parameters\<close>

datatype param_value =
    PNotSet
  | PBool bool
  | PInteger int
  | PDouble real
  | PString string

text \<open>
  The typed fields of a \<^verbatim>\<open>ParameterValue\<close>: a field of another type than the
  value's holds the default of its type.
\<close>

definition bool_value :: "param_value \<Rightarrow> bool" where
  "bool_value v = (case v of PBool b \<Rightarrow> b | _ \<Rightarrow> False)"

definition integer_value :: "param_value \<Rightarrow> int" where
  "integer_value v = (case v of PInteger i \<Rightarrow> i | _ \<Rightarrow> 0)"

definition double_value :: "param_value \<Rightarrow> real" where
  "double_value v = (case v of PDouble r \<Rightarrow> r | _ \<Rightarrow> 0)"

definition string_value :: "param_value \<Rightarrow> string" where
  "string_value v = (case v of PString s \<Rightarrow> s | _ \<Rightarrow> [])"

text \<open>The \<^verbatim>\<open>declare_parameter\<close> calls of \<^verbatim>\<open>ArucoNode.__init__\<close>, lines 52 to 67.\<close>

definition declared :: "(string \<times> param_value) list" where
  "declared =
     [(''marker_size'', PDouble 0.0625),
      (''aruco_dictionary_id'', PString ''DICT_5X5_250''),
      (''image_topic'', PString ''/camera/image_raw''),
      (''camera_info_topic'', PString ''/camera/camera_info''),
      (''camera_frame'', PNotSet),
      (''dictionary_bits'', PInteger (- 1)),
      (''dictionary_size'', PInteger (- 1)),
      (''dictionary_seed'', PInteger 0),
      (''do_corner_refinement'', PBool False),
      (''publish_tf'', PBool False),
      (''publish_charuco_pose'', PBool False),
      (''charuco_square_x'', PInteger 7),
      (''charuco_square_y'', PInteger 5),
      (''charuco_square_length'', PDouble 0.1),
      (''corner_refinement_method'', PString ''CORNER_REFINE_NONE'')]"

text \<open>
  \<^verbatim>\<open>get_parameter(name).get_parameter_value()\<close>: the value given to the node
  at start-up, else the declared default.
\<close>

type_synonym overrides = "string \<rightharpoonup> param_value"

definition get_parameter :: "overrides \<Rightarrow> string \<Rightarrow> param_value" where
  "get_parameter ov name =
     (case ov name of
        Some v \<Rightarrow> v
      | None \<Rightarrow> (case map_of declared name of Some v \<Rightarrow> v | None \<Rightarrow> PNotSet))"

section \<open>The node\<close>

record detector_parameters =
  cornerRefinementMethod :: int

definition DetectorParameters_create :: detector_parameters where
  "DetectorParameters_create = \<lparr>cornerRefinementMethod = 0\<rparr>"

text \<open>
  The attributes of an \<^verbatim>\<open>ArucoNode\<close>.  \<open>info_sub\<close> tells whether the
  subscription to the calibration topic still exists.  The broadcaster and the
  publishers are made once in \<^verbatim>\<open>__init__\<close> and never change; they are not
  part of the state.
\<close>

record aruco_node =
  marker_size :: real
  camera_frame :: "string option"
  aruco_dictionary :: dictionary
  info_sub :: bool
  info_msg :: "camera_info option"
  intrinsic_mat :: "real list list option"
  distortion :: "real list option"
  aruco_parameters :: detector_parameters
  publish_tf :: bool
  publish_charuco_pose :: bool
  charuco_square_x :: int
  charuco_square_y :: int
  charuco_square_length :: real

fun index_of :: "'a list \<Rightarrow> 'a \<Rightarrow> error + nat" where
  "index_of [] v = Inl ValueError"
| "index_of (x # xs) v =
     (if x = v then Inr 0
      else (case index_of xs v of Inl e \<Rightarrow> Inl e | Inr n \<Rightarrow> Inr (Suc n)))"

text \<open>
  Lines 80 to 103 of \<^verbatim>\<open>__init__\<close>.  The local variable \<^verbatim>\<open>dictionary_id\<close> is
  \<open>None\<close> while it is unbound: it is bound by the first statement of the
  \<^verbatim>\<open>try\<close> block only when the attribute lookup succeeds.  The \<^verbatim>\<open>except\<close>
  clause logs two errors and falls through to line 93.
\<close>

definition bad_dictionary_log :: "namespace \<Rightarrow> string \<Rightarrow> event list" where
  "bad_dictionary_log ns dictionary_id_name =
     [LogError (''bad aruco_dictionary_id: '' @ dictionary_id_name),
      LogError (''valid options: '' @ join [char_of (10::nat)] (dict_options ns))]"

definition try_dictionary_id :: "namespace \<Rightarrow> string \<Rightarrow> event list \<times> pyval option" where
  "try_dictionary_id ns dictionary_id_name =
     (case getattribute ns dictionary_id_name of
        Inl e \<Rightarrow> (bad_dictionary_log ns dictionary_id_name, None)
      | Inr dictionary_id \<Rightarrow>
          (case getattribute ns ''DICT_5X5_100'' of
             Inl e \<Rightarrow> (bad_dictionary_log ns dictionary_id_name, Some dictionary_id)
           | Inr ref \<Rightarrow>
               if pytype dictionary_id \<noteq> pytype ref
               then (bad_dictionary_log ns dictionary_id_name, Some dictionary_id)
               else ([], Some dictionary_id)))"

definition select_dictionary ::
  "namespace \<Rightarrow> overrides \<Rightarrow> event list \<times> (error + dictionary)" where
  "select_dictionary ns ov =
     (let dictionary_id_name = string_value (get_parameter ov ''aruco_dictionary_id'') in
      if dictionary_id_name \<noteq> ''CUSTOM''
      then (case try_dictionary_id ns dictionary_id_name of
              (lg, None) \<Rightarrow> (lg, Inl UnboundLocalError)
            | (lg, Some dictionary_id) \<Rightarrow> (lg, Dictionary_get_py dictionary_id))
      else (let dict_bits = integer_value (get_parameter ov ''dictionary_bits'');
                dict_size = integer_value (get_parameter ov ''dictionary_size'');
                dict_seed = integer_value (get_parameter ov ''dictionary_seed'')
            in ([], Inr (Dictionary_create dict_bits dict_size dict_seed))))"

text \<open>Lines 125 to 142: the detector parameters.\<close>

definition corner_refinement_methods :: "string list" where
  "corner_refinement_methods =
     [''CORNER_REFINE_NONE'', ''CORNER_REFINE_SUBPIX'',
      ''CORNER_REFINE_CONTOUR'', ''CORNER_REFINE_APRILTAG'']"

definition make_aruco_parameters :: "overrides \<Rightarrow> error + detector_parameters" where
  "make_aruco_parameters ov =
     (if bool_value (get_parameter ov ''do_corner_refinement'')
      then (case index_of corner_refinement_methods
                   (string_value (get_parameter ov ''corner_refinement_method'')) of
              Inl e \<Rightarrow> Inl e
            | Inr corner_refinement_method_index \<Rightarrow>
                Inr (DetectorParameters_create
                       \<lparr>cornerRefinementMethod := int corner_refinement_method_index\<rparr>))
      else Inr DetectorParameters_create)"

text \<open>
  \<^verbatim>\<open>ArucoNode.__init__\<close>: what is logged, and the node or the exception that
  escapes the constructor.
\<close>

definition init :: "namespace \<Rightarrow> overrides \<Rightarrow> event list \<times> (error + aruco_node)" where
  "init ns ov =
     (case select_dictionary ns ov of
        (lg, Inl e) \<Rightarrow> (lg, Inl e)
      | (lg, Inr dict) \<Rightarrow>
          (case make_aruco_parameters ov of
             Inl e \<Rightarrow> (lg, Inl e)
           | Inr ap \<Rightarrow>
               (lg, Inr
                 \<lparr>marker_size = double_value (get_parameter ov ''marker_size''),
                  camera_frame = Some (string_value (get_parameter ov ''camera_frame'')),
                  aruco_dictionary = dict,
                  info_sub = True,
                  info_msg = None,
                  intrinsic_mat = None,
                  distortion = None,
                  aruco_parameters = ap,
                  publish_tf = bool_value (get_parameter ov ''publish_tf''),
                  publish_charuco_pose = bool_value (get_parameter ov ''publish_charuco_pose''),
                  charuco_square_x = integer_value (get_parameter ov ''charuco_square_x''),
                  charuco_square_y = integer_value (get_parameter ov ''charuco_square_x''),
                  charuco_square_length =
                    double_value (get_parameter ov ''charuco_square_length'')\<rparr>)))"

section \<open>The callbacks\<close>

text \<open>
  The calls into OpenCV, \<^verbatim>\<open>cv_bridge\<close> and the \<^verbatim>\<open>transformations\<close> module are
  parameters of the model: nothing is assumed about what they return, and each
  OpenCV or bridge call may raise.  \<^verbatim>\<open>detectMarkers\<close> returns the corners, the
  ids (\<open>None\<close> when no marker is found, else one row \<^verbatim>\<open>[id]\<close> per marker)
  and the rejected candidates; \<^verbatim>\<open>estimatePoseSingleMarkers\<close> returns
  \<^verbatim>\<open>rvecs\<close> and \<^verbatim>\<open>tvecs\<close>, arrays indexed as \<^verbatim>\<open>[i][0][j]\<close> (the third component
  that OpenCV 4 returns is dropped by both branches of line 205).
  \<^verbatim>\<open>CharucoBoard_create\<close> raises \<^verbatim>\<open>cv2.error\<close> for a geometry that the
  library refuses; which ones it refuses is left to the library.
\<close>

type_synonym corners = "real list list list"
type_synonym vec3 = "real \<times> real \<times> real"
type_synonym mat3 = "vec3 \<times> vec3 \<times> vec3"

record libs =
  imgmsg_to_cv2 :: "image_msg \<Rightarrow> error + image"
  detectMarkers ::
    "image \<Rightarrow> dictionary \<Rightarrow> detector_parameters
       \<Rightarrow> error + (corners \<times> int list list option \<times> corners)"
  estimatePoseSingleMarkers ::
    "corners \<Rightarrow> real \<Rightarrow> real list list option \<Rightarrow> real list option
       \<Rightarrow> error + (real list list list \<times> real list list list)"
  Rodrigues :: "real list \<Rightarrow> error + mat3"
  quaternion_from_matrix :: "real list list \<Rightarrow> real \<times> real \<times> real \<times> real"
  interpolateCornersCharuco ::
    "corners \<Rightarrow> int list list \<Rightarrow> image \<Rightarrow> charuco_board
       \<Rightarrow> error + (int \<times> real list list \<times> int list)"
  estimatePoseCharucoBoard ::
    "real list list \<Rightarrow> int list \<Rightarrow> charuco_board \<Rightarrow> real list list option
       \<Rightarrow> real list option \<Rightarrow> error + (bool \<times> real list list \<times> real list list)"
  CharucoBoard_create_raises :: "charuco_board \<Rightarrow> bool"

definition bnd :: "error + 'a \<Rightarrow> ('a \<Rightarrow> error + 'b) \<Rightarrow> error + 'b" where
  "bnd m f = (case m of Inl e \<Rightarrow> Inl e | Inr v \<Rightarrow> f v)"

text \<open>Indexing with a non-negative index; out of range raises \<^verbatim>\<open>IndexError\<close>.\<close>

definition idx :: "'a list \<Rightarrow> nat \<Rightarrow> error + 'a" where
  "idx xs i = (if i < length xs then Inr (xs ! i) else Inl IndexError)"

definition idx2 :: "'a list list \<Rightarrow> nat \<Rightarrow> nat \<Rightarrow> error + 'a" where
  "idx2 xs i j = bnd (idx xs i) (\<lambda>row. idx row j)"

definition idx3 :: "'a list list list \<Rightarrow> nat \<Rightarrow> nat \<Rightarrow> nat \<Rightarrow> error + 'a" where
  "idx3 xs i j l = bnd (idx2 xs i j) (\<lambda>row. idx row l)"

text \<open>\<^verbatim>\<open>np.reshape(np.array(xs), (3, 3))\<close>.\<close>

definition reshape33 :: "real list \<Rightarrow> error + real list list" where
  "reshape33 xs =
     (if length xs = 9
      then Inr [take 3 xs, take 3 (drop 3 xs), take 3 (drop 6 xs)]
      else Inl ValueError)"

text \<open>
  \<^verbatim>\<open>info_callback\<close>, lines 171 to 176.  The result is the node, the events and
  the exception that escapes, if any.
\<close>

definition info_callback ::
  "aruco_node \<Rightarrow> camera_info \<Rightarrow> aruco_node \<times> event list \<times> error option" where
  "info_callback self msg =
     (let self1 = self\<lparr>info_msg := Some msg\<rparr> in
      case reshape33 (k msg) of
        Inl e \<Rightarrow> (self1, [], Some e)
      | Inr m \<Rightarrow>
          (self1\<lparr>intrinsic_mat := Some m, distortion := Some (d msg), info_sub := False\<rparr>,
           [], None))"

text \<open>
  Lines 226 to 228: \<^verbatim>\<open>np.eye(4)\<close> with its upper left block replaced by the
  rotation matrix, then the conversion to a quaternion.
\<close>

fun rot_matrix_of :: "mat3 \<Rightarrow> real list list" where
  "rot_matrix_of ((a, b, c), (e, f, g), (h, i, j)) =
     [[a, b, c, 0], [e, f, g, 0], [h, i, j, 0], [0, 0, 0, 1]]"

definition quat_of_rvec :: "libs \<Rightarrow> real list \<Rightarrow> error + quaternion" where
  "quat_of_rvec L rvec =
     bnd (Rodrigues L rvec)
       (\<lambda>r. case quaternion_from_matrix L (rot_matrix_of r) of
               (q0, q1, q2, q3) \<Rightarrow> Inr (Quaternion q0 q1 q2 q3))"

text \<open>Lines 221 to 233: the pose of marker \<open>i\<close>.\<close>

definition marker_pose ::
  "libs \<Rightarrow> real list list list \<Rightarrow> real list list list \<Rightarrow> nat \<Rightarrow> error + pose" where
  "marker_pose L rvecs tvecs i =
     bnd (idx3 tvecs i 0 0) (\<lambda>tx.
     bnd (idx3 tvecs i 0 1) (\<lambda>ty.
     bnd (idx3 tvecs i 0 2) (\<lambda>tz.
     bnd (idx2 rvecs i 0) (\<lambda>rvec.
     bnd (quat_of_rvec L rvec) (\<lambda>quat.
       Inr \<lparr>position = Point tx ty tz, orientation = quat\<rparr>)))))"

text \<open>
  Lines 243 and 305: \<^verbatim>\<open>self.camera_frame or self.info.msg.header.frame_id\<close>.
  The right operand is evaluated when \<^verbatim>\<open>camera_frame\<close> is \<^verbatim>\<open>None\<close> or empty;
  the node has no attribute \<^verbatim>\<open>info\<close> (the calibration message is
  \<^verbatim>\<open>info_msg\<close>), so that evaluation raises \<^verbatim>\<open>AttributeError\<close>.
\<close>

definition tf_frame_id :: "aruco_node \<Rightarrow> error + string" where
  "tf_frame_id self =
     (case camera_frame self of
        None \<Rightarrow> Inl AttributeError
      | Some cf \<Rightarrow> if cf \<noteq> [] then Inr cf else Inl AttributeError)"

text \<open>
  One round of the loop of line 220, for marker \<open>i\<close> with the row
  \<open>marker_id\<close> of the ids: the events, and the two messages with the pose
  appended, or the exception.
\<close>

definition marker_step ::
  "libs \<Rightarrow> aruco_node \<Rightarrow> nat \<Rightarrow> real list list list \<Rightarrow> real list list list \<Rightarrow> nat
     \<Rightarrow> int list \<Rightarrow> pose_array \<times> aruco_markers
     \<Rightarrow> event list \<times> (error + pose_array \<times> aruco_markers)" where
  "marker_step L self st rvecs tvecs i marker_id acc =
     (case marker_pose L rvecs tvecs i of
        Inl e \<Rightarrow> ([], Inl e)
      | Inr p \<Rightarrow>
          (case idx marker_id 0 of
             Inl e \<Rightarrow> ([], Inl e)
           | Inr mid \<Rightarrow>
               (let pa = fst acc; mk = snd acc;
                    pa1 = pa\<lparr>poses := poses pa @ [p]\<rparr>;
                    mk1 = mk\<lparr>poses := poses mk @ [p], marker_ids := marker_ids mk @ [mid]\<rparr>
                in if publish_tf self
                   then (case tf_frame_id self of
                           Inl e \<Rightarrow> ([], Inl e)
                         | Inr fid \<Rightarrow>
                             ([SendTransform
                                 \<lparr>header = \<lparr>stamp = st, frame_id = fid\<rparr>,
                                  child_frame_id = ''marker_'' @ str_int mid,
                                  transform = \<lparr>translation = position p,
                                               rotation = orientation p\<rparr>\<rparr>],
                              Inr (pa1, mk1)))
                   else ([], Inr (pa1, mk1)))))"

fun marker_loop ::
  "libs \<Rightarrow> aruco_node \<Rightarrow> nat \<Rightarrow> real list list list \<Rightarrow> real list list list \<Rightarrow> nat
     \<Rightarrow> int list list \<Rightarrow> pose_array \<times> aruco_markers
     \<Rightarrow> event list \<times> (error + pose_array \<times> aruco_markers)" where
  "marker_loop L self st rvecs tvecs i [] acc = ([], Inr acc)"
| "marker_loop L self st rvecs tvecs i (marker_id # rest) acc =
     (case marker_step L self st rvecs tvecs i marker_id acc of
        (evs, Inl e) \<Rightarrow> (evs, Inl e)
      | (evs, Inr acc1) \<Rightarrow>
          (case marker_loop L self st rvecs tvecs (Suc i) rest acc1 of
             (evs1, r) \<Rightarrow> (evs @ evs1, r)))"

text \<open>Line 260: the board that the node asks the library for.\<close>

definition charuco_board_of :: "aruco_node \<Rightarrow> charuco_board" where
  "charuco_board_of self =
     CharucoBoard_create (charuco_square_x self) (charuco_square_y self)
       (charuco_square_length self) (marker_size self) (aruco_dictionary self)"

text \<open>
  Lines 285 to 316: the board message and its transform.  \<^verbatim>\<open>rvec\<close> and
  \<^verbatim>\<open>tvec\<close> are 3 by 1 arrays; \<^verbatim>\<open>cv2.Rodrigues\<close> takes the three numbers.
\<close>

definition publish_board ::
  "libs \<Rightarrow> aruco_node \<Rightarrow> nat \<Rightarrow> real list list \<Rightarrow> real list list
     \<Rightarrow> event list \<times> error option" where
  "publish_board L self st rvec tvec =
     (case bnd (idx2 tvec 0 0) (\<lambda>tx.
           bnd (idx2 tvec 1 0) (\<lambda>ty.
           bnd (idx2 tvec 2 0) (\<lambda>tz.
           bnd (quat_of_rvec L (concat rvec)) (\<lambda>quat.
             Inr \<lparr>position = Point tx ty tz, orientation = quat\<rparr>)))) of
        Inl e \<Rightarrow> ([], Some e)
      | Inr p \<Rightarrow>
          (if publish_tf self
           then (case tf_frame_id self of
                   Inl e \<Rightarrow> ([PublishCharuco \<lparr>pose = p\<rparr>], Some e)
                 | Inr fid \<Rightarrow>
                     ([PublishCharuco \<lparr>pose = p\<rparr>,
                       SendTransform
                         \<lparr>header = \<lparr>stamp = st, frame_id = fid\<rparr>,
                          child_frame_id = ''charuco_board'',
                          transform = \<lparr>translation = position p,
                                       rotation = orientation p\<rparr>\<rparr>], None))
           else ([PublishCharuco \<lparr>pose = p\<rparr>], None)))"

text \<open>Lines 259 to 284.\<close>

definition charuco_pose ::
  "libs \<Rightarrow> aruco_node \<Rightarrow> nat \<Rightarrow> corners \<Rightarrow> int list list \<Rightarrow> image
     \<Rightarrow> event list \<times> error option" where
  "charuco_pose L self st cs ids cv_image =
     (let board = charuco_board_of self in
      if CharucoBoard_create_raises L board then ([], Some LibraryError)
      else (case interpolateCornersCharuco L cs ids cv_image board of
              Inl e \<Rightarrow> ([], Some e)
            | Inr (n_corners, ch_corners, ch_ids) \<Rightarrow>
                if n_corners > 0
                then (case estimatePoseCharucoBoard L ch_corners ch_ids board
                             (intrinsic_mat self) (distortion self) of
                        Inl e \<Rightarrow> ([], Some e)
                      | Inr (success, rvec, tvec) \<Rightarrow>
                          if success then publish_board L self st rvec tvec else ([], None))
                else ([], None)))"

text \<open>
  Lines 203 to 316: what happens once the detector has returned ids.
\<close>

definition publish_detections ::
  "libs \<Rightarrow> aruco_node \<Rightarrow> image_msg \<Rightarrow> image \<Rightarrow> msg_header \<Rightarrow> corners
     \<Rightarrow> int list list \<Rightarrow> event list \<times> error option" where
  "publish_detections L self img_msg cv_image hdr cs ids =
     (case estimatePoseSingleMarkers L cs (marker_size self)
             (intrinsic_mat self) (distortion self) of
        Inl e \<Rightarrow> ([], Some e)
      | Inr (rvecs, tvecs) \<Rightarrow>
          (case marker_loop L self (stamp (header img_msg)) rvecs tvecs 0 ids
                  (\<lparr>header = hdr, poses = []\<rparr>,
                   \<lparr>header = hdr, poses = [], marker_ids = []\<rparr>) of
             (evs, Inl e) \<Rightarrow> (evs, Some e)
           | (evs, Inr (pa, mk)) \<Rightarrow>
               (if publish_charuco_pose self
                then (case charuco_pose L self (stamp (header img_msg)) cs ids cv_image of
                        (evs1, r) \<Rightarrow>
                          (evs @ [PublishPoses pa, PublishMarkers mk] @ evs1, r))
                else (evs @ [PublishPoses pa, PublishMarkers mk], None))))"

text \<open>\<^verbatim>\<open>image_callback\<close>, lines 178 to 316.\<close>

definition image_callback ::
  "libs \<Rightarrow> aruco_node \<Rightarrow> image_msg \<Rightarrow> aruco_node \<times> event list \<times> error option" where
  "image_callback L self img_msg =
     (case info_msg self of
        None \<Rightarrow> (self, [LogWarn ''No camera info has been received!''], None)
      | Some info \<Rightarrow>
          (case imgmsg_to_cv2 L img_msg of
             Inl e \<Rightarrow> (self, [], Some e)
           | Inr cv_image \<Rightarrow>
               (let hdr = \<lparr>stamp = stamp (header img_msg),
                           frame_id = (case camera_frame self of
                                         None \<Rightarrow> frame_id (header info)
                                       | Some cf \<Rightarrow> cf)\<rparr>
                in case detectMarkers L cv_image (aruco_dictionary self)
                          (aruco_parameters self) of
                     Inl e \<Rightarrow> (self, [], Some e)
                   | Inr (cs, marker_ids_opt, rejected) \<Rightarrow>
                       (case marker_ids_opt of
                          None \<Rightarrow> (self, [], None)
                        | Some ids \<Rightarrow>
                            (case publish_detections L self img_msg cv_image hdr cs ids of
                               (evs, r) \<Rightarrow> (self, evs, r))))))"

section \<open>The executor\<close>

text \<open>
  \<^verbatim>\<open>rclpy.spin\<close> hands the incoming messages to the callbacks one at a time.  A
  message of the calibration topic reaches \<^verbatim>\<open>info_callback\<close> only while the
  subscription exists.  An exception that escapes a callback ends the spin.
\<close>

datatype message = InfoMsg camera_info | ImageMsg image_msg

definition dispatch ::
  "libs \<Rightarrow> aruco_node \<Rightarrow> message \<Rightarrow> aruco_node \<times> event list \<times> error option" where
  "dispatch L self m =
     (case m of
        InfoMsg msg \<Rightarrow> if info_sub self then info_callback self msg else (self, [], None)
      | ImageMsg img_msg \<Rightarrow> image_callback L self img_msg)"

fun spin :: "libs \<Rightarrow> aruco_node \<Rightarrow> message list \<Rightarrow> aruco_node \<times> event list \<times> error option" where
  "spin L self [] = (self, [], None)"
| "spin L self (m # ms) =
     (case dispatch L self m of
        (self1, evs, Some e) \<Rightarrow> (self1, evs, Some e)
      | (self1, evs, None) \<Rightarrow>
          (case spin L self1 ms of (self2, evs1, r) \<Rightarrow> (self2, evs @ evs1, r)))"

section \<open>Kinds of events\<close>

definition is_log :: "event \<Rightarrow> bool" where
  "is_log ev = (case ev of LogWarn _ \<Rightarrow> True | LogError _ \<Rightarrow> True | _ \<Rightarrow> False)"

definition is_tf :: "event \<Rightarrow> bool" where
  "is_tf ev = (case ev of SendTransform _ \<Rightarrow> True | _ \<Rightarrow> False)"

definition is_board_event :: "event \<Rightarrow> bool" where
  "is_board_event ev = (case ev of SendTransform _ \<Rightarrow> True | PublishCharuco _ \<Rightarrow> True | _ \<Rightarrow> False)"

section \<open>A test fixture\<close>

text \<open>
  A small namespace, a library that answers from a table (two markers, with ids 7
  and 42), one calibration message and one image, for running the model on
  concrete inputs.  \<open>fixture_node0\<close> is the node that \<open>init\<close> makes from the
  default parameters, \<open>fixture_node\<close> the same node after the calibration
  message; \<open>fixture_libs_blank\<close> is a library whose detector finds nothing.
\<close>

definition fixture_ns :: namespace where
  "fixture_ns =
     [(''DICT_4X4_50'', PyInt 0), (''DICT_5X5_100'', PyInt 5), (''DICT_5X5_250'', PyInt 6),
      (''Dictionary_get'', PyObj ''builtin_function_or_method'')]"

definition fixture_corners :: corners where
  "fixture_corners = [[[0, 0], [1, 0], [1, 1], [0, 1]], [[2, 2], [3, 2], [3, 3], [2, 3]]]"

definition fixture_rvecs :: "real list list list" where
  "fixture_rvecs = [[[0, 0, 0]], [[3, 0, 0]]]"

definition fixture_tvecs :: "real list list list" where
  "fixture_tvecs = [[[1, 2, 3]], [[4, 5, 6]]]"

definition fixture_libs :: libs where
  "fixture_libs =
     \<lparr>imgmsg_to_cv2 = (\<lambda>m. Inr (CvImage (data m))),
      detectMarkers = (\<lambda>im dict ps. Inr (fixture_corners, Some [[7], [42]], [])),
      estimatePoseSingleMarkers = (\<lambda>cs sz km dist. Inr (fixture_rvecs, fixture_tvecs)),
      Rodrigues = (\<lambda>v. if v = [0, 0, 0] then Inr ((1, 0, 0), (0, 1, 0), (0, 0, 1))
                       else Inr ((1, 0, 0), (0, - 1, 0), (0, 0, - 1))),
      quaternion_from_matrix = (\<lambda>m.
        if m = [[1, 0, 0, 0], [0, 1, 0, 0], [0, 0, 1, 0], [0, 0, 0, 1]]
        then (0, 0, 0, 1) else (1, 0, 0, 0)),
      interpolateCornersCharuco = (\<lambda>cs ids im b. Inr (0, [], [])),
      estimatePoseCharucoBoard = (\<lambda>cc ci b km dist. Inr (False, [], [])),
      CharucoBoard_create_raises = (\<lambda>b. squareLength b \<le> markerLength b)\<rparr>"

definition fixture_info :: camera_info where
  "fixture_info =
     \<lparr>header = \<lparr>stamp = 0, frame_id = ''camera''\<rparr>,
      k = [1, 0, 0, 0, 1, 0, 0, 0, 1], d = [0, 0, 0, 0, 0]\<rparr>"

definition fixture_image :: image_msg where
  "fixture_image = \<lparr>header = \<lparr>stamp = 5, frame_id = ''camera''\<rparr>, data = [0, 1, 2, 3]\<rparr>"

definition fixture_node0 :: aruco_node where
  "fixture_node0 =
     \<lparr>marker_size = 0.0625, camera_frame = Some [], aruco_dictionary = Dictionary_get 6,
      info_sub = True, info_msg = None, intrinsic_mat = None, distortion = None,
      aruco_parameters = \<lparr>cornerRefinementMethod = 0\<rparr>, publish_tf = False,
      publish_charuco_pose = False, charuco_square_x = 7, charuco_square_y = 7,
      charuco_square_length = 0.1\<rparr>"

definition fixture_node :: aruco_node where
  "fixture_node =
     fixture_node0\<lparr>info_msg := Some fixture_info,
       intrinsic_mat := Some [[1, 0, 0], [0, 1, 0], [0, 0, 1]],
       distortion := Some [0, 0, 0, 0, 0], info_sub := False\<rparr>"

definition fixture_libs_blank :: libs where
  "fixture_libs_blank = fixture_libs\<lparr>detectMarkers := (\<lambda>im dict ps. Inr ([], None, []))\<rparr>"

text \<open>What the fixture's callback is expected to publish.\<close>

definition fixture_poses :: "pose list" where
  "fixture_poses =
     [\<lparr>position = Point 1 2 3, orientation = Quaternion 0 0 0 1\<rparr>,
      \<lparr>position = Point 4 5 6, orientation = Quaternion 1 0 0 0\<rparr>]"

definition fixture_pose_array :: pose_array where
  "fixture_pose_array = \<lparr>header = \<lparr>stamp = 5, frame_id = []\<rparr>, poses = fixture_poses\<rparr>"

definition fixture_markers :: aruco_markers where
  "fixture_markers =
     \<lparr>header = \<lparr>stamp = 5, frame_id = []\<rparr>, poses = fixture_poses, marker_ids = [7, 42]\<rparr>"

definition fixture_events :: "event list" where
  "fixture_events = [PublishPoses fixture_pose_array, PublishMarkers fixture_markers]"

text \<open>
  A run of the board generator: seven by five squares, no \<^verbatim>\<open>--out-x\<close>, a
  height of 480 pixels, the default dictionary, a library that raises nothing
  and a file system on which the write succeeds.
\<close>

definition fixture_board_args :: board_args where
  "fixture_board_args =
     \<lparr>square_x = 7, square_y = 5, square_length = 0.1, marker_length = 0.08,
      path = ''./checkerboard.tiff'', out_x = None, out_y = Some 480, dictionary = None\<rparr>"

definition fixture_no_faults :: cv2_faults where
  "fixture_no_faults =
     \<lparr>create_raises = (\<lambda>b. False), draw_raises = (\<lambda>b w h. False),
      imwrite_raises = (\<lambda>p im. False)\<rparr>"

definition fixture_env :: os_env where
  "fixture_env = \<lparr>imwrite = (\<lambda>p im. True), abspath = (\<lambda>p. ''/home/user/'' @ drop 2 p)\<rparr>"

definition fixture_board :: charuco_board where
  "fixture_board = CharucoBoard_create 7 5 0.1 0.08 (Dictionary_get 6)"

section \<open>Properties of the generator scripts\<close>

lemma py_or_int_cases:
  "py_or_int a b = (if a = None \<or> a = Some 0 then b else the a)"
  by (cases a) (simp_all add: py_or_int_def)

text \<open>
  Lines 52 and 53 alone: an absent or zero option becomes 300 times the number
  of squares, any other value is kept, and the square counts are not changed.
\<close>

theorem resolve_out_default:
  "out_x (resolve_out args) =
     Some (if out_x args = None \<or> out_x args = Some 0 then 300 * square_x args
           else the (out_x args)) \<and>
   out_y (resolve_out args) =
     Some (if out_y args = None \<or> out_y args = Some 0 then 300 * square_y args
           else the (out_y args)) \<and>
   square_x (resolve_out args) = square_x args \<and>
   square_y (resolve_out args) = square_y args"
  by (simp add: resolve_out_def Let_def py_or_int_cases)

lemma resolve_out_fields:
  "path (resolve_out args) = path args \<and> square_length (resolve_out args) = square_length args \<and>
   marker_length (resolve_out args) = marker_length args"
  by (simp add: resolve_out_def Let_def)

lemma board_main_draw_size:
  assumes "board_main ns cv env args = (evs, r)" and "Draw b w h \<in> set evs"
  shows "w = (if out_x args = None \<or> out_x args = Some 0 then 300 * square_x args
              else the (out_x args)) \<and>
         h = (if out_y args = None \<or> out_y args = Some 0 then 300 * square_y args
              else the (out_y args))"
proof -
  have r: "the (out_x (resolve_out args)) =
             (if out_x args = None \<or> out_x args = Some 0 then 300 * square_x args
              else the (out_x args))"
          "the (out_y (resolve_out args)) =
             (if out_y args = None \<or> out_y args = Some 0 then 300 * square_y args
              else the (out_y args))"
    using resolve_out_default [of args] by simp_all
  from assms have "w = the (out_x (resolve_out args)) \<and> h = the (out_y (resolve_out args))"
    by (auto simp: board_main_def Let_def unrecognized_dictionary_def
        split: sum.splits if_splits)
  with r show ?thesis by simp
qed

text \<open>
  C10: the resolution that the board generator uses.  Once the dictionary is
  found, the script asks \<^verbatim>\<open>board.draw\<close> for a width of 300 times
  \<^verbatim>\<open>square_x\<close> when \<^verbatim>\<open>--out-x\<close> is omitted or 0 and for the given width
  otherwise, and likewise for the height with \<^verbatim>\<open>--out-y\<close> and \<^verbatim>\<open>square_y\<close>;
  the image of that size is what it writes.  Where the library refuses the
  board, the size or the path, the script ends with the library's error.
\<close>

theorem board_main_resolution:
  assumes "chosen_dictionary ns args = Inr name"
      and "getattribute ns name = Inr (PyInt n)"
  shows "board_main ns cv env args =
     (let w = (if out_x args = None \<or> out_x args = Some 0 then 300 * square_x args
               else the (out_x args));
          h = (if out_y args = None \<or> out_y args = Some 0 then 300 * square_y args
               else the (out_y args));
          board = CharucoBoard_create (square_x args) (square_y args) (square_length args)
                    (marker_length args) (Dictionary_get n);
          imboard = BoardImage board w h
      in if create_raises cv board then ([], Some LibraryError)
         else if draw_raises cv board w h then ([Draw board w h], Some LibraryError)
         else if imwrite_raises cv (path args) imboard
         then ([Draw board w h, Imwrite (path args) imboard], Some LibraryError)
         else ([Draw board w h, Imwrite (path args) imboard,
                Print ((if imwrite env (path args) imboard
                        then ''Succesfully wrote checkerboard to ''
                        else ''Failed to write checkerboard to '') @ abspath env (path args))],
               None))"
proof -
  have r: "out_x (resolve_out args) =
             Some (if out_x args = None \<or> out_x args = Some 0 then 300 * square_x args
                   else the (out_x args))"
          "out_y (resolve_out args) =
             Some (if out_y args = None \<or> out_y args = Some 0 then 300 * square_y args
                   else the (out_y args))"
          "square_x (resolve_out args) = square_x args"
          "square_y (resolve_out args) = square_y args"
    using resolve_out_default [of args] by simp_all
  note f = resolve_out_fields [of args]
  show ?thesis
    using assms
    by (simp add: board_main_def Let_def Dictionary_get_py_def r f)
qed

theorem board_main_resolution_witness:
  "chosen_dictionary fixture_ns fixture_board_args = Inr ''DICT_5X5_250'' \<and>
   getattribute fixture_ns ''DICT_5X5_250'' = Inr (PyInt 6) \<and>
   board_main fixture_ns fixture_no_faults fixture_env fixture_board_args =
     ([Draw fixture_board 2100 480,
       Imwrite ''./checkerboard.tiff'' (BoardImage fixture_board 2100 480),
       Print ''Succesfully wrote checkerboard to /home/user/checkerboard.tiff''], None)"
proof -
  have h1: "chosen_dictionary fixture_ns fixture_board_args = Inr ''DICT_5X5_250''"
    by (simp add: chosen_dictionary_def fixture_board_args_def)
  have h2: "getattribute fixture_ns ''DICT_5X5_250'' = Inr (PyInt 6)"
    by (simp add: getattribute_def fixture_ns_def)
  from board_main_resolution [OF h1 h2, of fixture_no_faults fixture_env]
  have "board_main fixture_ns fixture_no_faults fixture_env fixture_board_args =
     ([Draw fixture_board 2100 480,
       Imwrite ''./checkerboard.tiff'' (BoardImage fixture_board 2100 480),
       Print ''Succesfully wrote checkerboard to /home/user/checkerboard.tiff''], None)"
    by (simp add: fixture_board_args_def fixture_no_faults_def fixture_env_def
        fixture_board_def Let_def)
  with h1 h2 show ?thesis by blast
qed

section \<open>Properties of the callbacks\<close>

subsection \<open>Indexing and the marker loop\<close>

lemma bnd_Inr: "bnd m f = Inr v \<longleftrightarrow> (\<exists>a. m = Inr a \<and> f a = Inr v)"
  by (cases m) (simp_all add: bnd_def)

lemma idx_Inr: "idx xs i = Inr v \<longleftrightarrow> i < length xs \<and> v = xs ! i"
  by (auto simp: idx_def)

lemma idx2_Inr: "idx2 xs i j = Inr v \<longleftrightarrow> i < length xs \<and> j < length (xs ! i) \<and> v = xs ! i ! j"
  by (auto simp: idx2_def bnd_Inr idx_Inr)

lemma idx3_Inr:
  "idx3 xs i j l = Inr v \<longleftrightarrow>
     i < length xs \<and> j < length (xs ! i) \<and> l < length (xs ! i ! j) \<and> v = xs ! i ! j ! l"
  by (auto simp: idx3_def bnd_Inr idx2_Inr idx_Inr)

lemma marker_pose_Inr:
  assumes "marker_pose L rvecs tvecs i = Inr p"
  shows "i < length tvecs \<and> 0 < length (tvecs ! i) \<and> 2 < length (tvecs ! i ! 0) \<and>
         position p = Point (tvecs ! i ! 0 ! 0) (tvecs ! i ! 0 ! 1) (tvecs ! i ! 0 ! 2) \<and>
         i < length rvecs \<and> 0 < length (rvecs ! i) \<and>
         quat_of_rvec L (rvecs ! i ! 0) = Inr (orientation p)"
  using assms unfolding marker_pose_def
  by (auto simp: bnd_Inr idx3_Inr idx2_Inr)

lemma marker_step_Inr:
  assumes "marker_step L self st rvecs tvecs i marker_id (pa, mk) = (evs, Inr (pa1, mk1))"
  shows "\<exists>p mid. marker_pose L rvecs tvecs i = Inr p \<and> idx marker_id 0 = Inr mid \<and>
           pa1 = pa\<lparr>poses := poses pa @ [p]\<rparr> \<and>
           mk1 = mk\<lparr>poses := poses mk @ [p], marker_ids := marker_ids mk @ [mid]\<rparr>"
  using assms unfolding marker_step_def
  by (auto simp: Let_def split: sum.splits if_splits)

lemma marker_loop_Inr:
  "marker_loop L self st rvecs tvecs i ids (pa, mk) = (evs, Inr (pa1, mk1)) \<Longrightarrow>
   \<exists>ps ms. length ps = length ids \<and> length ms = length ids \<and>
     pa1 = pa\<lparr>poses := poses pa @ ps\<rparr> \<and>
     mk1 = mk\<lparr>poses := poses mk @ ps, marker_ids := marker_ids mk @ ms\<rparr> \<and>
     (\<forall>j < length ids. marker_pose L rvecs tvecs (i + j) = Inr (ps ! j) \<and>
                       idx (ids ! j) 0 = Inr (ms ! j))"
proof (induction ids arbitrary: i pa mk evs)
  case Nil
  then show ?case by simp
next
  case (Cons marker_id rest)
  obtain evs0 r0 where st: "marker_step L self st rvecs tvecs i marker_id (pa, mk) = (evs0, r0)"
    by (cases "marker_step L self st rvecs tvecs i marker_id (pa, mk)")
  from Cons.prems st obtain pa2 mk2 where r0: "r0 = Inr (pa2, mk2)"
    by (cases r0) auto
  obtain evs1 r1 where lp: "marker_loop L self st rvecs tvecs (Suc i) rest (pa2, mk2) = (evs1, r1)"
    by (cases "marker_loop L self st rvecs tvecs (Suc i) rest (pa2, mk2)")
  from Cons.prems st r0 lp have r1: "r1 = Inr (pa1, mk1)" by simp
  from marker_step_Inr [OF st [unfolded r0]] obtain p mid where
    p: "marker_pose L rvecs tvecs i = Inr p" and mid: "idx marker_id 0 = Inr mid" and
    pa2: "pa2 = pa\<lparr>poses := poses pa @ [p]\<rparr>" and
    mk2: "mk2 = mk\<lparr>poses := poses mk @ [p], marker_ids := marker_ids mk @ [mid]\<rparr>"
    by blast
  from Cons.IH [OF lp [unfolded r1]] obtain ps ms where
    len: "length ps = length rest" "length ms = length rest" and
    pa1: "pa1 = pa2\<lparr>poses := poses pa2 @ ps\<rparr>" and
    mk1: "mk1 = mk2\<lparr>poses := poses mk2 @ ps, marker_ids := marker_ids mk2 @ ms\<rparr>" and
    each: "\<forall>j < length rest. marker_pose L rvecs tvecs (Suc i + j) = Inr (ps ! j) \<and>
                             idx (rest ! j) 0 = Inr (ms ! j)"
    by blast
  have all: "\<forall>j < length (marker_id # rest).
          marker_pose L rvecs tvecs (i + j) = Inr ((p # ps) ! j) \<and>
          idx ((marker_id # rest) ! j) 0 = Inr ((mid # ms) ! j)"
  proof (intro allI impI)
    fix j assume j: "j < length (marker_id # rest)"
    show "marker_pose L rvecs tvecs (i + j) = Inr ((p # ps) ! j) \<and>
          idx ((marker_id # rest) ! j) 0 = Inr ((mid # ms) ! j)"
    proof (cases j)
      case 0
      with p mid show ?thesis by simp
    next
      case (Suc j')
      with j each show ?thesis by simp
    qed
  qed
  show ?case
    apply (rule exI [of _ "p # ps"], rule exI [of _ "mid # ms"])
    using len pa1 mk1 pa2 mk2 all by simp
qed

lemma marker_loop_start:
  assumes "marker_loop L self st rvecs tvecs 0 ids
             (\<lparr>header = hdr, poses = []\<rparr>, \<lparr>header = hdr, poses = [], marker_ids = []\<rparr>)
           = (evs, Inr (pa, mk))"
  shows "length (poses pa) = length ids \<and> poses mk = poses pa \<and>
         length (marker_ids mk) = length ids \<and> header pa = hdr \<and> header mk = hdr \<and>
         (\<forall>j < length ids. marker_pose L rvecs tvecs j = Inr (poses pa ! j) \<and>
                           idx (ids ! j) 0 = Inr (marker_ids mk ! j))"
proof -
  from marker_loop_Inr [OF assms] obtain ps ms where
    len: "length ps = length ids" "length ms = length ids" and
    pa: "pa = \<lparr>header = hdr, poses = []\<rparr>\<lparr>poses := poses \<lparr>header = hdr, poses = []\<rparr> @ ps\<rparr>" and
    mk: "mk = \<lparr>header = hdr, poses = [], marker_ids = []\<rparr>
           \<lparr>poses := poses \<lparr>header = hdr, poses = [], marker_ids = []\<rparr> @ ps,
            marker_ids := marker_ids \<lparr>header = hdr, poses = [], marker_ids = []\<rparr> @ ms\<rparr>" and
    each: "\<forall>j < length ids. marker_pose L rvecs tvecs (0 + j) = Inr (ps ! j) \<and>
                       idx (ids ! j) 0 = Inr (ms ! j)"
    by blast
  from pa have pa': "poses pa = ps" "header pa = hdr" by simp_all
  from mk have mk': "poses mk = ps" "marker_ids mk = ms" "header mk = hdr" by simp_all
  from len each pa' mk' show ?thesis by simp
qed

subsection \<open>The events of a callback\<close>

lemma marker_step_events:
  "marker_step L self st rvecs tvecs i marker_id acc = (evs, r) \<Longrightarrow> \<forall>e \<in> set evs. is_tf e"
  by (auto simp: marker_step_def Let_def is_tf_def split: sum.splits if_splits)

lemma marker_loop_events:
  "marker_loop L self st rvecs tvecs i ids acc = (evs, r) \<Longrightarrow> \<forall>e \<in> set evs. is_tf e"
proof (induction ids arbitrary: i acc evs r)
  case Nil
  then show ?case by simp
next
  case (Cons marker_id rest)
  obtain evs0 r0 where st: "marker_step L self st rvecs tvecs i marker_id acc = (evs0, r0)"
    by (cases "marker_step L self st rvecs tvecs i marker_id acc")
  have e0: "\<forall>e \<in> set evs0. is_tf e" using marker_step_events [OF st] .
  show ?case
  proof (cases r0)
    case (Inl e)
    with Cons.prems st e0 show ?thesis by simp
  next
    case (Inr acc1)
    obtain evs1 r1 where lp: "marker_loop L self st rvecs tvecs (Suc i) rest acc1 = (evs1, r1)"
      by (cases "marker_loop L self st rvecs tvecs (Suc i) rest acc1")
    from Cons.IH [OF lp] have "\<forall>e \<in> set evs1. is_tf e" .
    with Cons.prems st e0 Inr lp show ?thesis by auto
  qed
qed

lemma publish_board_events:
  "publish_board L self st rvec tvec = (evs, r) \<Longrightarrow> \<forall>e \<in> set evs. is_board_event e"
  by (auto simp: publish_board_def is_board_event_def split: sum.splits if_splits)

lemma charuco_pose_events:
  "charuco_pose L self st cs ids cv_image = (evs, r) \<Longrightarrow> \<forall>e \<in> set evs. is_board_event e"
  by (auto simp: charuco_pose_def Let_def split: sum.splits if_splits prod.splits
           dest: publish_board_events)

lemma publish_detections_shape:
  assumes "publish_detections L self img_msg cv_image hdr cs ids = (evs, r)"
  shows "((\<forall>e \<in> set evs. is_tf e) \<and> r \<noteq> None) \<or>
         (\<exists>rvecs tvecs evs0 evs1 pa mk.
            estimatePoseSingleMarkers L cs (marker_size self) (intrinsic_mat self)
              (distortion self) = Inr (rvecs, tvecs) \<and>
            marker_loop L self (stamp (header img_msg)) rvecs tvecs 0 ids
              (\<lparr>header = hdr, poses = []\<rparr>, \<lparr>header = hdr, poses = [], marker_ids = []\<rparr>)
              = (evs0, Inr (pa, mk)) \<and>
            evs = evs0 @ [PublishPoses pa, PublishMarkers mk] @ evs1 \<and>
            (\<forall>e \<in> set evs0. is_tf e) \<and> (\<forall>e \<in> set evs1. is_board_event e))"
proof (cases "estimatePoseSingleMarkers L cs (marker_size self) (intrinsic_mat self)
                (distortion self)")
  case (Inl e)
  with assms show ?thesis by (auto simp: publish_detections_def)
next
  case (Inr vecs)
  obtain rvecs tvecs where vecs: "vecs = (rvecs, tvecs)" by (cases vecs)
  obtain evs0 r0 where lp:
    "marker_loop L self (stamp (header img_msg)) rvecs tvecs 0 ids
       (\<lparr>header = hdr, poses = []\<rparr>, \<lparr>header = hdr, poses = [], marker_ids = []\<rparr>) = (evs0, r0)"
    by (cases "marker_loop L self (stamp (header img_msg)) rvecs tvecs 0 ids
       (\<lparr>header = hdr, poses = []\<rparr>, \<lparr>header = hdr, poses = [], marker_ids = []\<rparr>)")
  have tf0: "\<forall>e \<in> set evs0. is_tf e" using marker_loop_events [OF lp] .
  show ?thesis
  proof (cases r0)
    case (Inl e)
    with assms Inr vecs lp tf0 show ?thesis by (auto simp: publish_detections_def)
  next
    case r0: (Inr acc)
    obtain pa mk where acc: "acc = (pa, mk)" by (cases acc)
    show ?thesis
    proof (cases "publish_charuco_pose self")
      case False
      with assms Inr vecs lp r0 acc
      have "evs = evs0 @ [PublishPoses pa, PublishMarkers mk] @ []"
        by (simp add: publish_detections_def)
      with Inr vecs lp r0 acc tf0 show ?thesis by fastforce
    next
      case True
      obtain evs1 r1 where ch:
        "charuco_pose L self (stamp (header img_msg)) cs ids cv_image = (evs1, r1)"
        by (cases "charuco_pose L self (stamp (header img_msg)) cs ids cv_image")
      have b1: "\<forall>e \<in> set evs1. is_board_event e" using charuco_pose_events [OF ch] .
      from assms Inr vecs lp r0 acc True ch
      have "evs = evs0 @ [PublishPoses pa, PublishMarkers mk] @ evs1"
        by (simp add: publish_detections_def)
      with Inr vecs lp r0 acc tf0 b1 show ?thesis by blast
    qed
  qed
qed

lemma publish_detections_None:
  assumes "publish_detections L self img_msg cv_image hdr cs ids = (evs, None)"
  shows "\<exists>pa mk. PublishPoses pa \<in> set evs \<and> PublishMarkers mk \<in> set evs"
  using publish_detections_shape [OF assms] by auto

lemma image_callback_self: "fst (image_callback L self img_msg) = self"
  by (simp add: image_callback_def Let_def split: option.splits sum.splits prod.splits)

text \<open>The publications of a callback: the detections behind them.\<close>

lemma image_callback_shape:
  assumes "image_callback L self img_msg = (self', evs, r)"
  shows "(\<forall>e \<in> set evs. is_log e \<or> is_tf e) \<or>
         (\<exists>info cv_image cs ids rej rvecs tvecs evs0 evs1 pa mk hdr.
            info_msg self = Some info \<and>
            imgmsg_to_cv2 L img_msg = Inr cv_image \<and>
            detectMarkers L cv_image (aruco_dictionary self) (aruco_parameters self)
              = Inr (cs, Some ids, rej) \<and>
            estimatePoseSingleMarkers L cs (marker_size self) (intrinsic_mat self)
              (distortion self) = Inr (rvecs, tvecs) \<and>
            marker_loop L self (stamp (header img_msg)) rvecs tvecs 0 ids
              (\<lparr>header = hdr, poses = []\<rparr>, \<lparr>header = hdr, poses = [], marker_ids = []\<rparr>)
              = (evs0, Inr (pa, mk)) \<and>
            evs = evs0 @ [PublishPoses pa, PublishMarkers mk] @ evs1 \<and>
            (\<forall>e \<in> set evs0. is_tf e) \<and> (\<forall>e \<in> set evs1. is_board_event e))"
proof (cases "info_msg self")
  case None
  with assms show ?thesis by (auto simp: image_callback_def is_log_def)
next
  case (Some info)
  show ?thesis
  proof (cases "imgmsg_to_cv2 L img_msg")
    case (Inl e)
    with assms Some show ?thesis by (auto simp: image_callback_def)
  next
    case cv: (Inr cv_image)
    show ?thesis
    proof (cases "detectMarkers L cv_image (aruco_dictionary self) (aruco_parameters self)")
      case (Inl e)
      with assms Some cv show ?thesis by (auto simp: image_callback_def)
    next
      case (Inr det)
      obtain cs ido rej where det: "det = (cs, ido, rej)" by (cases det)
      show ?thesis
      proof (cases ido)
        case None
        with assms Some cv Inr det show ?thesis by (auto simp: image_callback_def)
      next
        case ids: (Some ids)
        define hdr where "hdr = \<lparr>stamp = stamp (header img_msg),
                           frame_id = (case camera_frame self of
                                         None \<Rightarrow> frame_id (header info)
                                       | Some cf \<Rightarrow> cf)\<rparr>"
        from assms Some cv Inr det ids
        have pd: "publish_detections L self img_msg cv_image hdr cs ids = (evs, r)"
          by (auto simp: image_callback_def hdr_def split: prod.splits)
        from publish_detections_shape [OF pd] show ?thesis
        proof
          assume "(\<forall>e \<in> set evs. is_tf e) \<and> r \<noteq> None"
          then show ?thesis by blast
        next
          assume "\<exists>rvecs tvecs evs0 evs1 pa mk.
            estimatePoseSingleMarkers L cs (marker_size self) (intrinsic_mat self)
              (distortion self) = Inr (rvecs, tvecs) \<and>
            marker_loop L self (stamp (header img_msg)) rvecs tvecs 0 ids
              (\<lparr>header = hdr, poses = []\<rparr>, \<lparr>header = hdr, poses = [], marker_ids = []\<rparr>)
              = (evs0, Inr (pa, mk)) \<and>
            evs = evs0 @ [PublishPoses pa, PublishMarkers mk] @ evs1 \<and>
            (\<forall>e \<in> set evs0. is_tf e) \<and> (\<forall>e \<in> set evs1. is_board_event e)"
          with Some cv Inr det ids show ?thesis by blast
        qed
      qed
    qed
  qed
qed

subsection \<open>The fixture\<close>

lemma init_fixture: "init fixture_ns Map.empty = ([], Inr fixture_node0)"
  by (simp add: init_def select_dictionary_def try_dictionary_id_def getattribute_def
      fixture_ns_def get_parameter_def declared_def string_value_def pytype_def
      Dictionary_get_py_def make_aruco_parameters_def bool_value_def double_value_def
      integer_value_def DetectorParameters_create_def fixture_node0_def)

lemma info_fixture: "info_callback fixture_node0 fixture_info = (fixture_node, [], None)"
  by (simp add: info_callback_def reshape33_def fixture_info_def fixture_node_def
      fixture_node0_def)

lemma image_fixture:
  "image_callback fixture_libs fixture_node fixture_image = (fixture_node, fixture_events, None)"
  by (simp add: image_callback_def fixture_node_def fixture_node0_def fixture_libs_def
      fixture_image_def fixture_info_def publish_detections_def marker_step_def
      marker_pose_def idx3_def idx2_def idx_def bnd_def quat_of_rvec_def Let_def
      fixture_rvecs_def fixture_tvecs_def fixture_events_def fixture_poses_def
      fixture_pose_array_def fixture_markers_def)

subsection \<open>Claims about the image callback\<close>

text \<open>
  C2: an image that arrives while no calibration message has been received is
  dropped: the callback logs one warning, publishes nothing, leaves the node as
  it was and raises nothing.
\<close>

theorem image_callback_without_camera_info:
  "info_msg self = None \<Longrightarrow>
   image_callback L self img_msg =
     (self, [LogWarn ''No camera info has been received!''], None)"
  by (simp add: image_callback_def)

theorem image_callback_without_camera_info_witness:
  "info_msg fixture_node0 = None \<and>
   image_callback fixture_libs fixture_node0 fixture_image =
     (fixture_node0, [LogWarn ''No camera info has been received!''], None)"
proof -
  have h: "info_msg fixture_node0 = None" by (simp add: fixture_node0_def)
  show ?thesis
    by (rule conjI [OF h image_callback_without_camera_info [OF h]])
qed

text \<open>
  C9: when the detector finds no marker (it returns \<^verbatim>\<open>None\<close> for the ids) the
  callback publishes nothing for the frame: no pose array, no markers message,
  no board pose and no transform.  Its only possible event is the warning of C2,
  and it returns normally with the node unchanged.
\<close>

theorem image_callback_no_markers:
  assumes "imgmsg_to_cv2 L img_msg = Inr cv_image"
      and "detectMarkers L cv_image (aruco_dictionary self) (aruco_parameters self)
             = Inr (cs, None, rej)"
  shows "image_callback L self img_msg =
           (self,
            (if info_msg self = None then [LogWarn ''No camera info has been received!'']
             else []),
            None) \<and>
         (\<forall>e \<in> set (fst (snd (image_callback L self img_msg))). is_log e)"
  using assms by (simp add: image_callback_def is_log_def split: option.splits)

theorem image_callback_no_markers_witness:
  "imgmsg_to_cv2 fixture_libs_blank fixture_image = Inr (CvImage [0, 1, 2, 3]) \<and>
   detectMarkers fixture_libs_blank (CvImage [0, 1, 2, 3]) (aruco_dictionary fixture_node)
     (aruco_parameters fixture_node) = Inr ([], None, []) \<and>
   info_msg fixture_node = Some fixture_info \<and>
   image_callback fixture_libs_blank fixture_node fixture_image = (fixture_node, [], None)"
proof -
  have h1: "imgmsg_to_cv2 fixture_libs_blank fixture_image = Inr (CvImage [0, 1, 2, 3])"
    by (simp add: fixture_libs_blank_def fixture_libs_def fixture_image_def)
  have h2: "detectMarkers fixture_libs_blank (CvImage [0, 1, 2, 3])
              (aruco_dictionary fixture_node) (aruco_parameters fixture_node)
            = Inr ([], None, [])"
    by (simp add: fixture_libs_blank_def fixture_libs_def)
  have h3: "info_msg fixture_node = Some fixture_info" by (simp add: fixture_node_def)
  from image_callback_no_markers [OF h1 h2] h3
  have "image_callback fixture_libs_blank fixture_node fixture_image = (fixture_node, [], None)"
    by simp
  with h1 h2 h3 show ?thesis by blast
qed

text \<open>
  What a callback publishes is copied from the library.  In a callback whose
  detector returned the ids \<open>ids\<close> and whose pose estimator returned
  \<open>rvecs\<close> and \<open>tvecs\<close>, every published pose array and every published
  markers message holds one pose per detected marker; the position of pose
  \<open>i\<close> is \<^verbatim>\<open>tvecs[i][0]\<close> component by component, its orientation is the
  quaternion that the conversion gives for \<^verbatim>\<open>rvecs[i][0]\<close>, and the \<open>i\<close>-th
  marker id is the library's \<open>i\<close>-th id.  A callback that has the calibration
  and returns normally has published both messages.
\<close>

theorem image_callback_copies_library_output:
  assumes cb: "image_callback L self img_msg = (self', evs, r)"
      and cv: "imgmsg_to_cv2 L img_msg = Inr cv_image"
      and det: "detectMarkers L cv_image (aruco_dictionary self) (aruco_parameters self)
                  = Inr (cs, Some ids, rej)"
      and est: "estimatePoseSingleMarkers L cs (marker_size self) (intrinsic_mat self)
                  (distortion self) = Inr (rvecs, tvecs)"
  shows "(info_msg self \<noteq> None \<and> r = None \<longrightarrow>
            (\<exists>pa mk. PublishPoses pa \<in> set evs \<and> PublishMarkers mk \<in> set evs)) \<and>
         (\<forall>pa. PublishPoses pa \<in> set evs \<longrightarrow>
            length (poses pa) = length ids \<and>
            (\<forall>i < length ids.
               i < length tvecs \<and> 0 < length (tvecs ! i) \<and> 2 < length (tvecs ! i ! 0) \<and>
               position (poses pa ! i) =
                 Point (tvecs ! i ! 0 ! 0) (tvecs ! i ! 0 ! 1) (tvecs ! i ! 0 ! 2) \<and>
               i < length rvecs \<and> 0 < length (rvecs ! i) \<and>
               quat_of_rvec L (rvecs ! i ! 0) = Inr (orientation (poses pa ! i)))) \<and>
         (\<forall>mk. PublishMarkers mk \<in> set evs \<longrightarrow>
            length (poses mk) = length ids \<and> length (marker_ids mk) = length ids \<and>
            (\<forall>i < length ids.
               position (poses mk ! i) =
                 Point (tvecs ! i ! 0 ! 0) (tvecs ! i ! 0 ! 1) (tvecs ! i ! 0 ! 2) \<and>
               quat_of_rvec L (rvecs ! i ! 0) = Inr (orientation (poses mk ! i)) \<and>
               0 < length (ids ! i) \<and> marker_ids mk ! i = ids ! i ! 0))"
proof -
  have pub: "\<exists>pa mk. PublishPoses pa \<in> set evs \<and> PublishMarkers mk \<in> set evs"
    if "info_msg self \<noteq> None" "r = None"
  proof -
    from that obtain info where info: "info_msg self = Some info" by auto
    define hdr where "hdr = \<lparr>stamp = stamp (header img_msg),
                           frame_id = (case camera_frame self of
                                         None \<Rightarrow> frame_id (header info)
                                       | Some cf \<Rightarrow> cf)\<rparr>"
    from cb info cv det that(2)
    have "publish_detections L self img_msg cv_image hdr cs ids = (evs, None)"
      by (auto simp: image_callback_def hdr_def split: prod.splits)
    then show ?thesis by (rule publish_detections_None)
  qed
  have loop: "\<exists>evs0 hdr pa mk. marker_loop L self (stamp (header img_msg)) rvecs tvecs 0 ids
              (\<lparr>header = hdr, poses = []\<rparr>, \<lparr>header = hdr, poses = [], marker_ids = []\<rparr>)
              = (evs0, Inr (pa, mk)) \<and> (ev = PublishPoses pa \<or> ev = PublishMarkers mk)"
    if ev: "ev \<in> set evs" "\<not> is_log ev" "\<not> is_board_event ev" for ev
  proof -
    from image_callback_shape [OF cb] show ?thesis
    proof
      assume "\<forall>e \<in> set evs. is_log e \<or> is_tf e"
      with ev have "is_tf ev" by blast
      with ev(3) show ?thesis by (simp add: is_tf_def is_board_event_def split: event.splits)
    next
      assume "\<exists>info cv_image cs ids rej rvecs tvecs evs0 evs1 pa mk hdr.
            info_msg self = Some info \<and>
            imgmsg_to_cv2 L img_msg = Inr cv_image \<and>
            detectMarkers L cv_image (aruco_dictionary self) (aruco_parameters self)
              = Inr (cs, Some ids, rej) \<and>
            estimatePoseSingleMarkers L cs (marker_size self) (intrinsic_mat self)
              (distortion self) = Inr (rvecs, tvecs) \<and>
            marker_loop L self (stamp (header img_msg)) rvecs tvecs 0 ids
              (\<lparr>header = hdr, poses = []\<rparr>, \<lparr>header = hdr, poses = [], marker_ids = []\<rparr>)
              = (evs0, Inr (pa, mk)) \<and>
            evs = evs0 @ [PublishPoses pa, PublishMarkers mk] @ evs1 \<and>
            (\<forall>e \<in> set evs0. is_tf e) \<and> (\<forall>e \<in> set evs1. is_board_event e)"
      then obtain info' :: camera_info and cv' cs' ids' rej' rvecs' tvecs' evs0 evs1 pa mk hdr where
        cv': "imgmsg_to_cv2 L img_msg = Inr cv'" and
        det': "detectMarkers L cv' (aruco_dictionary self) (aruco_parameters self)
              = Inr (cs', Some ids', rej')" and
        est': "estimatePoseSingleMarkers L cs' (marker_size self) (intrinsic_mat self)
              (distortion self) = Inr (rvecs', tvecs')" and
        lp: "marker_loop L self (stamp (header img_msg)) rvecs' tvecs' 0 ids'
              (\<lparr>header = hdr, poses = []\<rparr>, \<lparr>header = hdr, poses = [], marker_ids = []\<rparr>)
              = (evs0, Inr (pa, mk))" and
        evs: "evs = evs0 @ [PublishPoses pa, PublishMarkers mk] @ evs1" and
        tf0: "\<forall>e \<in> set evs0. is_tf e" and b1: "\<forall>e \<in> set evs1. is_board_event e"
        by blast
      from cv cv' have "cv' = cv_image" by simp
      with det det' have "cs' = cs" "ids' = ids" by simp_all
      with est est' have "rvecs' = rvecs" "tvecs' = tvecs" by simp_all
      note same = \<open>ids' = ids\<close> this
      have tfb: "is_tf e \<Longrightarrow> is_board_event e" for e
        by (simp add: is_tf_def is_board_event_def split: event.splits)
      from ev evs tf0 b1 tfb have "ev = PublishPoses pa \<or> ev = PublishMarkers mk" by auto
      with lp same show ?thesis by blast
    qed
  qed
  have poses_ok: "length (poses pa) = length ids \<and>
            (\<forall>i < length ids.
               i < length tvecs \<and> 0 < length (tvecs ! i) \<and> 2 < length (tvecs ! i ! 0) \<and>
               position (poses pa ! i) =
                 Point (tvecs ! i ! 0 ! 0) (tvecs ! i ! 0 ! 1) (tvecs ! i ! 0 ! 2) \<and>
               i < length rvecs \<and> 0 < length (rvecs ! i) \<and>
               quat_of_rvec L (rvecs ! i ! 0) = Inr (orientation (poses pa ! i)))"
    if "PublishPoses pa \<in> set evs" for pa
  proof -
    from loop [OF that] obtain evs0 hdr mk where
      lp: "marker_loop L self (stamp (header img_msg)) rvecs tvecs 0 ids
              (\<lparr>header = hdr, poses = []\<rparr>, \<lparr>header = hdr, poses = [], marker_ids = []\<rparr>)
              = (evs0, Inr (pa, mk))"
      by (auto simp: is_log_def is_board_event_def)
    note st = marker_loop_start [OF lp]
    show ?thesis
    proof (intro conjI allI impI)
      show "length (poses pa) = length ids" using st by simp
    next
      fix i assume "i < length ids"
      with st have "marker_pose L rvecs tvecs i = Inr (poses pa ! i)" by simp
      from marker_pose_Inr [OF this]
      show "i < length tvecs" "0 < length (tvecs ! i)" "2 < length (tvecs ! i ! 0)"
        "position (poses pa ! i) =
                 Point (tvecs ! i ! 0 ! 0) (tvecs ! i ! 0 ! 1) (tvecs ! i ! 0 ! 2)"
        "i < length rvecs" "0 < length (rvecs ! i)"
        "quat_of_rvec L (rvecs ! i ! 0) = Inr (orientation (poses pa ! i))"
        by simp_all
    qed
  qed
  have markers_ok: "length (poses mk) = length ids \<and> length (marker_ids mk) = length ids \<and>
            (\<forall>i < length ids.
               position (poses mk ! i) =
                 Point (tvecs ! i ! 0 ! 0) (tvecs ! i ! 0 ! 1) (tvecs ! i ! 0 ! 2) \<and>
               quat_of_rvec L (rvecs ! i ! 0) = Inr (orientation (poses mk ! i)) \<and>
               0 < length (ids ! i) \<and> marker_ids mk ! i = ids ! i ! 0)"
    if "PublishMarkers mk \<in> set evs" for mk
  proof -
    from loop [OF that] obtain evs0 hdr pa where
      lp: "marker_loop L self (stamp (header img_msg)) rvecs tvecs 0 ids
              (\<lparr>header = hdr, poses = []\<rparr>, \<lparr>header = hdr, poses = [], marker_ids = []\<rparr>)
              = (evs0, Inr (pa, mk))"
      by (auto simp: is_log_def is_board_event_def)
    note st = marker_loop_start [OF lp]
    show ?thesis
    proof (intro conjI allI impI)
      show "length (poses mk) = length ids" "length (marker_ids mk) = length ids"
        using st by simp_all
    next
      fix i assume i: "i < length ids"
      with st have "marker_pose L rvecs tvecs i = Inr (poses mk ! i)" by simp
      from marker_pose_Inr [OF this]
      show "position (poses mk ! i) =
                 Point (tvecs ! i ! 0 ! 0) (tvecs ! i ! 0 ! 1) (tvecs ! i ! 0 ! 2)"
        "quat_of_rvec L (rvecs ! i ! 0) = Inr (orientation (poses mk ! i))"
        by simp_all
      from i st have "idx (ids ! i) 0 = Inr (marker_ids mk ! i)" by simp
      then show "0 < length (ids ! i)" "marker_ids mk ! i = ids ! i ! 0"
        by (simp_all add: idx_Inr)
    qed
  qed
  from pub poses_ok markers_ok show ?thesis by blast
qed

theorem image_callback_copies_library_output_witness:
  "image_callback fixture_libs fixture_node fixture_image = (fixture_node, fixture_events, None) \<and>
   imgmsg_to_cv2 fixture_libs fixture_image = Inr (CvImage [0, 1, 2, 3]) \<and>
   detectMarkers fixture_libs (CvImage [0, 1, 2, 3]) (aruco_dictionary fixture_node)
     (aruco_parameters fixture_node) = Inr (fixture_corners, Some [[7], [42]], []) \<and>
   estimatePoseSingleMarkers fixture_libs fixture_corners (marker_size fixture_node)
     (intrinsic_mat fixture_node) (distortion fixture_node)
     = Inr (fixture_rvecs, fixture_tvecs) \<and>
   PublishPoses fixture_pose_array \<in> set fixture_events \<and>
   PublishMarkers fixture_markers \<in> set fixture_events \<and>
   length (poses fixture_pose_array) = 2 \<and>
   position (poses fixture_pose_array ! 1) = Point 4 5 6 \<and>
   orientation (poses fixture_pose_array ! 1) = Quaternion 1 0 0 0 \<and>
   marker_ids fixture_markers ! 1 = 42"
proof -
  have cb: "image_callback fixture_libs fixture_node fixture_image
              = (fixture_node, fixture_events, None)"
    by (rule image_fixture)
  have cv: "imgmsg_to_cv2 fixture_libs fixture_image = Inr (CvImage [0, 1, 2, 3])"
    by (simp add: fixture_libs_def fixture_image_def)
  have det: "detectMarkers fixture_libs (CvImage [0, 1, 2, 3]) (aruco_dictionary fixture_node)
     (aruco_parameters fixture_node) = Inr (fixture_corners, Some [[7], [42]], [])"
    by (simp add: fixture_libs_def)
  have est: "estimatePoseSingleMarkers fixture_libs fixture_corners (marker_size fixture_node)
     (intrinsic_mat fixture_node) (distortion fixture_node)
     = Inr (fixture_rvecs, fixture_tvecs)"
    by (simp add: fixture_libs_def)
  have pp: "PublishPoses fixture_pose_array \<in> set fixture_events"
    and pm: "PublishMarkers fixture_markers \<in> set fixture_events"
    by (simp_all add: fixture_events_def)
  have q: "quat_of_rvec fixture_libs (fixture_rvecs ! 1 ! 0) = Inr (Quaternion 1 0 0 0)"
    by (simp add: quat_of_rvec_def bnd_def fixture_libs_def fixture_rvecs_def)
  note c1 = image_callback_copies_library_output [OF cb cv det est]
  from c1 pp have "length (poses fixture_pose_array) = length [[7::int], [42]]"
    and "position (poses fixture_pose_array ! 1) =
           Point (fixture_tvecs ! 1 ! 0 ! 0) (fixture_tvecs ! 1 ! 0 ! 1) (fixture_tvecs ! 1 ! 0 ! 2)"
    and "quat_of_rvec fixture_libs (fixture_rvecs ! 1 ! 0)
           = Inr (orientation (poses fixture_pose_array ! 1))"
    by simp_all
  with q have p2: "length (poses fixture_pose_array) = 2"
    "position (poses fixture_pose_array ! 1) = Point 4 5 6"
    "orientation (poses fixture_pose_array ! 1) = Quaternion 1 0 0 0"
    by (simp_all add: fixture_tvecs_def)
  from c1 pm have "marker_ids fixture_markers ! 1 = [[7::int], [42]] ! 1 ! 0" by simp
  then have p3: "marker_ids fixture_markers ! 1 = 42" by simp
  from cb cv det est pp pm p2 p3 show ?thesis by blast
qed

text \<open>
  C8: every markers message that a callback publishes has as many ids as poses;
  it comes right after the pose array of the same callback, which has the same
  header and the same poses; no other pose array or markers message is published
  by that callback; and id \<open>i\<close> and pose \<open>i\<close> both come from detection \<open>i\<close>.
\<close>

theorem aruco_markers_consistent:
  assumes cb: "image_callback L self img_msg = (self', evs, r)"
      and pm: "PublishMarkers mk \<in> set evs"
  shows "length (marker_ids mk) = length (poses mk) \<and>
         (\<exists>evs0 evs1 pa. evs = evs0 @ [PublishPoses pa, PublishMarkers mk] @ evs1 \<and>
            poses pa = poses mk \<and> header pa = header mk \<and>
            (\<forall>e \<in> set (evs0 @ evs1). is_board_event e)) \<and>
         (\<forall>pa. PublishPoses pa \<in> set evs \<longrightarrow> poses pa = poses mk) \<and>
         (\<exists>cv_image cs ids rej rvecs tvecs.
            imgmsg_to_cv2 L img_msg = Inr cv_image \<and>
            detectMarkers L cv_image (aruco_dictionary self) (aruco_parameters self)
              = Inr (cs, Some ids, rej) \<and>
            estimatePoseSingleMarkers L cs (marker_size self) (intrinsic_mat self)
              (distortion self) = Inr (rvecs, tvecs) \<and>
            length (poses mk) = length ids \<and>
            (\<forall>i < length ids. idx (ids ! i) 0 = Inr (marker_ids mk ! i) \<and>
                              marker_pose L rvecs tvecs i = Inr (poses mk ! i)))"
proof -
  have tfb: "is_tf e \<Longrightarrow> is_board_event e" for e
    by (simp add: is_tf_def is_board_event_def split: event.splits)
  from image_callback_shape [OF cb]
  have "\<exists>info cv_image cs ids rej rvecs tvecs evs0 evs1 pa mk hdr.
            info_msg self = Some info \<and>
            imgmsg_to_cv2 L img_msg = Inr cv_image \<and>
            detectMarkers L cv_image (aruco_dictionary self) (aruco_parameters self)
              = Inr (cs, Some ids, rej) \<and>
            estimatePoseSingleMarkers L cs (marker_size self) (intrinsic_mat self)
              (distortion self) = Inr (rvecs, tvecs) \<and>
            marker_loop L self (stamp (header img_msg)) rvecs tvecs 0 ids
              (\<lparr>header = hdr, poses = []\<rparr>, \<lparr>header = hdr, poses = [], marker_ids = []\<rparr>)
              = (evs0, Inr (pa, mk)) \<and>
            evs = evs0 @ [PublishPoses pa, PublishMarkers mk] @ evs1 \<and>
            (\<forall>e \<in> set evs0. is_tf e) \<and> (\<forall>e \<in> set evs1. is_board_event e)"
  proof
    assume "\<forall>e \<in> set evs. is_log e \<or> is_tf e"
    with pm have "is_log (PublishMarkers mk) \<or> is_tf (PublishMarkers mk)" by blast
    then show ?thesis by (simp add: is_log_def is_tf_def)
  qed
  then obtain info :: camera_info and cv_image cs ids rej rvecs tvecs evs0 evs1 pa mk' hdr where
    cv: "imgmsg_to_cv2 L img_msg = Inr cv_image" and
    det: "detectMarkers L cv_image (aruco_dictionary self) (aruco_parameters self)
              = Inr (cs, Some ids, rej)" and
    est: "estimatePoseSingleMarkers L cs (marker_size self) (intrinsic_mat self)
              (distortion self) = Inr (rvecs, tvecs)" and
    lp: "marker_loop L self (stamp (header img_msg)) rvecs tvecs 0 ids
              (\<lparr>header = hdr, poses = []\<rparr>, \<lparr>header = hdr, poses = [], marker_ids = []\<rparr>)
              = (evs0, Inr (pa, mk'))" and
    evs: "evs = evs0 @ [PublishPoses pa, PublishMarkers mk'] @ evs1" and
    tf0: "\<forall>e \<in> set evs0. is_tf e" and b1: "\<forall>e \<in> set evs1. is_board_event e"
    by blast
  have b0: "\<forall>e \<in> set evs0. is_board_event e" using tf0 tfb by blast
  have nb: "\<not> is_board_event (PublishMarkers m)" "\<not> is_board_event (PublishPoses p)" for m p
    by (simp_all add: is_board_event_def)
  from pm evs b0 b1 nb have mk: "mk' = mk" by auto
  note st = marker_loop_start [OF lp [unfolded mk]]
  have only: "poses pa' = poses mk" if "PublishPoses pa' \<in> set evs" for pa'
  proof -
    from that evs b0 b1 nb have "pa' = pa" by auto
    with st show ?thesis by simp
  qed
  have c1: "length (marker_ids mk) = length (poses mk)" using st by simp
  have c2: "\<exists>evs0 evs1 pa. evs = evs0 @ [PublishPoses pa, PublishMarkers mk] @ evs1 \<and>
            poses pa = poses mk \<and> header pa = header mk \<and>
            (\<forall>e \<in> set (evs0 @ evs1). is_board_event e)"
    using evs mk st b0 b1 by (intro exI [of _ evs0] exI [of _ evs1] exI [of _ pa]) auto
  have c4: "\<exists>cv_image cs ids rej rvecs tvecs.
            imgmsg_to_cv2 L img_msg = Inr cv_image \<and>
            detectMarkers L cv_image (aruco_dictionary self) (aruco_parameters self)
              = Inr (cs, Some ids, rej) \<and>
            estimatePoseSingleMarkers L cs (marker_size self) (intrinsic_mat self)
              (distortion self) = Inr (rvecs, tvecs) \<and>
            length (poses mk) = length ids \<and>
            (\<forall>i < length ids. idx (ids ! i) 0 = Inr (marker_ids mk ! i) \<and>
                              marker_pose L rvecs tvecs i = Inr (poses mk ! i))"
    using cv det est st
    by (intro exI [of _ cv_image] exI [of _ cs] exI [of _ ids] exI [of _ rej]
          exI [of _ rvecs] exI [of _ tvecs]) simp
  from c1 c2 only c4 show ?thesis by blast
qed

theorem aruco_markers_consistent_witness:
  "image_callback fixture_libs fixture_node fixture_image = (fixture_node, fixture_events, None) \<and>
   PublishMarkers fixture_markers \<in> set fixture_events \<and>
   PublishPoses fixture_pose_array \<in> set fixture_events \<and>
   length (marker_ids fixture_markers) = length (poses fixture_markers) \<and>
   poses fixture_pose_array = poses fixture_markers"
proof -
  have cb: "image_callback fixture_libs fixture_node fixture_image
              = (fixture_node, fixture_events, None)"
    by (rule image_fixture)
  have pp: "PublishPoses fixture_pose_array \<in> set fixture_events"
    and pm: "PublishMarkers fixture_markers \<in> set fixture_events"
    by (simp_all add: fixture_events_def)
  from aruco_markers_consistent [OF cb pm] pp
  have "length (marker_ids fixture_markers) = length (poses fixture_markers)"
    and "poses fixture_pose_array = poses fixture_markers"
    by blast+
  with cb pm pp show ?thesis by blast
qed

subsection \<open>The calibration\<close>

lemma dispatch_unsubscribed:
  assumes "\<not> info_sub self" and "dispatch L self m = (self', evs, r)"
  shows "self' = self"
proof (cases m)
  case (InfoMsg msg)
  with assms show ?thesis by (simp add: dispatch_def)
next
  case (ImageMsg img_msg)
  with assms have "image_callback L self img_msg = (self', evs, r)" by (simp add: dispatch_def)
  with image_callback_self [of L self img_msg] show ?thesis by simp
qed

lemma spin_unsubscribed:
  "\<not> info_sub self \<Longrightarrow> spin L self ms = (self', evs, r) \<Longrightarrow> self' = self"
proof (induction ms arbitrary: self' evs r)
  case Nil
  then show ?case by simp
next
  case (Cons m ms)
  obtain s1 evs1 r1 where d: "dispatch L self m = (s1, evs1, r1)"
    by (cases "dispatch L self m")
  from dispatch_unsubscribed [OF Cons.prems(1) d] have s1: "s1 = self" .
  show ?case
  proof (cases r1)
    case (Some e)
    with Cons.prems d s1 show ?thesis by simp
  next
    case None
    obtain s2 evs2 r2 where sp: "spin L self ms = (s2, evs2, r2)"
      by (cases "spin L self ms")
    from Cons.IH [OF Cons.prems(1) sp] have "s2 = self" .
    with Cons.prems d s1 None sp show ?thesis by simp
  qed
qed

text \<open>
  C4: the calibration topic is consumed once.  The first calibration message
  (whose \<^verbatim>\<open>k\<close> has the nine entries of its message type) is stored with the
  intrinsic matrix and the distortion coefficients derived from it, and the
  subscription is destroyed; whatever messages follow, calibration messages
  included, the stored fields are still those of the first message.
\<close>

theorem calibration_consumed_once:
  assumes sub: "info_sub self"
      and k9: "length (k msg) = 9"
      and sp: "spin L self (InfoMsg msg # ms) = (self', evs, r)"
  shows "info_msg self' = Some msg \<and>
         intrinsic_mat self' = Some [take 3 (k msg), take 3 (drop 3 (k msg)), take 3 (drop 6 (k msg))] \<and>
         distortion self' = Some (d msg) \<and>
         \<not> info_sub self'"
proof -
  define s1 where "s1 = self\<lparr>info_msg := Some msg,
      intrinsic_mat := Some [take 3 (k msg), take 3 (drop 3 (k msg)), take 3 (drop 6 (k msg))],
      distortion := Some (d msg), info_sub := False\<rparr>"
  from sub k9 have d: "dispatch L self (InfoMsg msg) = (s1, [], None)"
    by (simp add: dispatch_def info_callback_def reshape33_def s1_def)
  obtain s2 evs2 r2 where sp2: "spin L s1 ms = (s2, evs2, r2)"
    by (cases "spin L s1 ms")
  have "\<not> info_sub s1" by (simp add: s1_def)
  from spin_unsubscribed [OF this sp2] have "s2 = s1" .
  with sp d sp2 have "self' = s1" by simp
  then show ?thesis by (simp add: s1_def)
qed

theorem calibration_consumed_once_witness:
  "info_sub fixture_node0 \<and> length (k fixture_info) = 9 \<and>
   spin fixture_libs fixture_node0
     [InfoMsg fixture_info, ImageMsg fixture_image,
      InfoMsg (fixture_info\<lparr>k := [2, 0, 0, 0, 2, 0, 0, 0, 1]\<rparr>), ImageMsg fixture_image]
     = (fixture_node, fixture_events @ fixture_events, None) \<and>
   info_msg fixture_node = Some fixture_info \<and>
   intrinsic_mat fixture_node = Some [[1, 0, 0], [0, 1, 0], [0, 0, 1]] \<and>
   distortion fixture_node = Some (d fixture_info)"
proof -
  have sub: "info_sub fixture_node0" by (simp add: fixture_node0_def)
  have k9: "length (k fixture_info) = 9" by (simp add: fixture_info_def)
  have ns: "\<not> info_sub fixture_node" by (simp add: fixture_node_def)
  have sp: "spin fixture_libs fixture_node0
     [InfoMsg fixture_info, ImageMsg fixture_image,
      InfoMsg (fixture_info\<lparr>k := [2, 0, 0, 0, 2, 0, 0, 0, 1]\<rparr>), ImageMsg fixture_image]
     = (fixture_node, fixture_events @ fixture_events, None)"
    using sub ns by (simp add: dispatch_def info_fixture image_fixture)
  from calibration_consumed_once [OF sub k9 sp]
  have "info_msg fixture_node = Some fixture_info"
    and "intrinsic_mat fixture_node = Some [[1, 0, 0], [0, 1, 0], [0, 0, 1]]"
    and "distortion fixture_node = Some (d fixture_info)"
    by (simp_all add: fixture_info_def)
  with sub k9 sp show ?thesis by blast
qed

section \<open>Where the code departs from its description\<close>

subsection \<open>An unknown dictionary name\<close>

text \<open>
  When the attribute lookup of line 83 fails, the \<^verbatim>\<open>except\<close> clause logs the two
  errors, and line 93 then reads \<^verbatim>\<open>dictionary_id\<close>, which was never bound.
\<close>

lemma init_unknown_dictionary:
  assumes "string_value (get_parameter ov ''aruco_dictionary_id'') = name"
      and "name \<noteq> ''CUSTOM''" and "map_of ns name = None"
  shows "init ns ov = (bad_dictionary_log ns name, Inl UnboundLocalError)"
  using assms
  by (simp add: init_def select_dictionary_def try_dictionary_id_def getattribute_def)

text \<open>
  C3: for the dictionary name \<^verbatim>\<open>DICT_BOGUS\<close>, which the library does not have,
  the constructor logs the bad name and the valid options, and then an
  \<^verbatim>\<open>UnboundLocalError\<close> escapes it: no node is made.
\<close>

theorem init_bad_dictionary_raises:
  "init fixture_ns [''aruco_dictionary_id'' \<mapsto> PString ''DICT_BOGUS''] =
     ([LogError ''bad aruco_dictionary_id: DICT_BOGUS'',
       LogError (''valid options: DICT_4X4_50'' @ [char_of (10::nat)] @ ''DICT_5X5_100''
                   @ [char_of (10::nat)] @ ''DICT_5X5_250'')],
      Inl UnboundLocalError)"
  by (simp add: init_def select_dictionary_def try_dictionary_id_def getattribute_def
      fixture_ns_def get_parameter_def string_value_def bad_dictionary_log_def
      dict_options_def dir_names_def startswith_def)

subsection \<open>The board geometry\<close>

text \<open>
  Lines 158 to 160 read the parameter \<^verbatim>\<open>charuco_square_x\<close> into
  \<^verbatim>\<open>self.charuco_square_y\<close>: the board always has as many squares in Y as
  in X, whatever \<^verbatim>\<open>charuco_square_y\<close> is.
\<close>

lemma init_square_y:
  assumes "init ns ov = (lg, Inr self)"
  shows "squaresX (charuco_board_of self) = integer_value (get_parameter ov ''charuco_square_x'') \<and>
         squaresY (charuco_board_of self) = integer_value (get_parameter ov ''charuco_square_x'')"
  using assms
  by (auto simp: init_def charuco_board_of_def CharucoBoard_create_def
      split: prod.splits sum.splits)

text \<open>
  C5: with \<^verbatim>\<open>charuco_square_x\<close> 4 and \<^verbatim>\<open>charuco_square_y\<close> 3 the board that
  the node hands to the library has 4 squares in X and 4 squares in Y, not 3.
\<close>

theorem init_board_ignores_square_y:
  "init fixture_ns [''publish_charuco_pose'' \<mapsto> PBool True,
                    ''charuco_square_x'' \<mapsto> PInteger 4,
                    ''charuco_square_y'' \<mapsto> PInteger 3] =
     ([], Inr (fixture_node0\<lparr>publish_charuco_pose := True, charuco_square_x := 4,
                             charuco_square_y := 4\<rparr>)) \<and>
   squaresX (charuco_board_of (fixture_node0\<lparr>publish_charuco_pose := True,
                 charuco_square_x := 4, charuco_square_y := 4\<rparr>)) = 4 \<and>
   squaresY (charuco_board_of (fixture_node0\<lparr>publish_charuco_pose := True,
                 charuco_square_x := 4, charuco_square_y := 4\<rparr>)) = 4"
  by (simp add: init_def select_dictionary_def try_dictionary_id_def getattribute_def
      fixture_ns_def get_parameter_def declared_def string_value_def pytype_def
      Dictionary_get_py_def make_aruco_parameters_def bool_value_def double_value_def
      integer_value_def DetectorParameters_create_def fixture_node0_def
      charuco_board_of_def CharucoBoard_create_def)

subsection \<open>Write failures in the generator scripts\<close>

text \<open>
  The marker generator prints nothing at all; the board generator reports a
  failed write.
\<close>

lemma marker_main_prints_nothing: "fst (marker_main env args) = []"
  by (simp add: marker_main_def)

lemma board_main_reports_failure:
  assumes "chosen_dictionary ns args = Inr name"
      and "getattribute ns name = Inr (PyInt n)"
      and "board_main ns cv env args = (evs, None)"
      and "Imwrite p im \<in> set evs" and "\<not> imwrite env p im"
  shows "Print (''Failed to write checkerboard to '' @ abspath env (path args)) \<in> set evs"
  using assms
  by (auto simp: board_main_def Let_def resolve_out_def Dictionary_get_py_def
      split: if_splits)

text \<open>
  C6: a run of the marker generator for two markers in which both
  \<^verbatim>\<open>cv2.imwrite\<close> calls return false prints no line: the failures are silent.
\<close>

theorem marker_main_silent_failure:
  "marker_main \<lparr>imwrite = (\<lambda>p im. False), abspath = (\<lambda>p. p)\<rparr>
     \<lparr>size_arg = 200, num = 2, bits = 6, seed = 0\<rparr> =
     ([], [(''marker_0000.png'', False), (''marker_0001.png'', False)])"
  by code_simp

subsection \<open>Transforms without a camera frame\<close>

text \<open>
  The node's \<^verbatim>\<open>camera_frame\<close> is the string value of the parameter, the
  empty string when the parameter is not set.  With \<^verbatim>\<open>publish_tf\<close> every
  round of the marker loop then fails at line 243, before its transform is
  sent; with a non-empty frame the transform carries the pose.
\<close>

lemma init_camera_frame:
  assumes "init ns ov = (lg, Inr self)"
  shows "camera_frame self = Some (string_value (get_parameter ov ''camera_frame''))"
  using assms by (auto simp: init_def split: prod.splits sum.splits)

lemma marker_step_unset_frame:
  assumes "publish_tf self" and "camera_frame self = Some []"
  shows "\<exists>e. marker_step L self st rvecs tvecs i marker_id acc = ([], Inl e)"
  using assms
  by (simp add: marker_step_def tf_frame_id_def Let_def split: sum.splits)

lemma marker_step_transform:
  assumes "publish_tf self" and "camera_frame self = Some cf" and "cf \<noteq> []"
      and "marker_pose L rvecs tvecs i = Inr p" and "idx marker_id 0 = Inr mid"
  shows "fst (marker_step L self st rvecs tvecs i marker_id acc) =
           [SendTransform
              \<lparr>header = \<lparr>stamp = st, frame_id = cf\<rparr>,
               child_frame_id = ''marker_'' @ str_int mid,
               transform = \<lparr>translation = position p, rotation = orientation p\<rparr>\<rparr>]"
  using assms by (simp add: marker_step_def tf_frame_id_def Let_def)

lemma image_callback_unset_frame:
  assumes tf: "publish_tf self" and cf: "camera_frame self = Some []"
      and info: "info_msg self = Some info"
      and cv: "imgmsg_to_cv2 L img_msg = Inr cv_image"
      and det: "detectMarkers L cv_image (aruco_dictionary self) (aruco_parameters self)
                  = Inr (cs, Some (marker_id # rest), rej)"
      and est: "estimatePoseSingleMarkers L cs (marker_size self) (intrinsic_mat self)
                  (distortion self) = Inr (rvecs, tvecs)"
  shows "\<exists>e. image_callback L self img_msg = (self, [], Some e)"
proof -
  define hdr where "hdr = \<lparr>stamp = stamp (header img_msg),
                           frame_id = (case camera_frame self of
                                         None \<Rightarrow> frame_id (header info)
                                       | Some cf \<Rightarrow> cf)\<rparr>"
  from marker_step_unset_frame [OF tf cf] obtain e where
    "marker_step L self (stamp (header img_msg)) rvecs tvecs 0 marker_id
       (\<lparr>header = hdr, poses = []\<rparr>, \<lparr>header = hdr, poses = [], marker_ids = []\<rparr>)
     = ([], Inl e)"
    by blast
  then have "publish_detections L self img_msg cv_image hdr cs (marker_id # rest)
             = ([], Some e)"
    using est by (simp add: publish_detections_def)
  with info cv det have "image_callback L self img_msg = (self, [], Some e)"
    by (simp add: image_callback_def hdr_def)
  then show ?thesis ..
qed

text \<open>
  C1: with \<^verbatim>\<open>publish_tf\<close> true and no camera frame, a callback whose detector
  returned the ids 7 and 42 and whose estimator returned their poses copies
  nothing into an outgoing message: it raises \<^verbatim>\<open>AttributeError\<close> at line 243,
  in the first round of the loop, and publishes neither the pose array nor the
  markers message.
\<close>

theorem image_callback_loses_detections:
  "detectMarkers fixture_libs (CvImage [0, 1, 2, 3])
     (aruco_dictionary (fixture_node\<lparr>publish_tf := True\<rparr>))
     (aruco_parameters (fixture_node\<lparr>publish_tf := True\<rparr>))
     = Inr (fixture_corners, Some [[7], [42]], []) \<and>
   estimatePoseSingleMarkers fixture_libs fixture_corners
     (marker_size (fixture_node\<lparr>publish_tf := True\<rparr>))
     (intrinsic_mat (fixture_node\<lparr>publish_tf := True\<rparr>))
     (distortion (fixture_node\<lparr>publish_tf := True\<rparr>))
     = Inr (fixture_rvecs, fixture_tvecs) \<and>
   image_callback fixture_libs (fixture_node\<lparr>publish_tf := True\<rparr>) fixture_image =
     (fixture_node\<lparr>publish_tf := True\<rparr>, [], Some AttributeError)"
  by (simp add: image_callback_def fixture_node_def fixture_node0_def fixture_libs_def
      fixture_image_def fixture_info_def publish_detections_def marker_step_def
      marker_pose_def idx3_def idx2_def idx_def bnd_def quat_of_rvec_def Let_def
      fixture_rvecs_def fixture_tvecs_def tf_frame_id_def)

text \<open>
  C7: a node made with \<^verbatim>\<open>publish_tf\<close> true and \<^verbatim>\<open>camera_frame\<close> not set
  receives the calibration and then an image with two markers: the image
  callback raises \<^verbatim>\<open>AttributeError\<close>; no transform is broadcast and nothing is
  published.
\<close>

theorem publish_tf_unset_frame_raises:
  "init fixture_ns [''publish_tf'' \<mapsto> PBool True] =
     ([], Inr (fixture_node0\<lparr>publish_tf := True\<rparr>)) \<and>
   spin fixture_libs (fixture_node0\<lparr>publish_tf := True\<rparr>)
     [InfoMsg fixture_info, ImageMsg fixture_image] =
     (fixture_node\<lparr>publish_tf := True\<rparr>, [], Some AttributeError)"
  by (simp add: init_def select_dictionary_def try_dictionary_id_def getattribute_def
      fixture_ns_def get_parameter_def declared_def string_value_def pytype_def
      Dictionary_get_py_def make_aruco_parameters_def bool_value_def double_value_def
      integer_value_def DetectorParameters_create_def fixture_node0_def
      dispatch_def info_callback_def reshape33_def fixture_info_def fixture_node_def
      image_callback_def fixture_libs_def fixture_image_def publish_detections_def
      marker_step_def marker_pose_def idx3_def idx2_def idx_def bnd_def quat_of_rvec_def
      Let_def fixture_rvecs_def fixture_tvecs_def tf_frame_id_def)

end
